theory Spec2Isabelle
  imports Main "HOL-Library.Sublist"
begin

section \<open>The where-clause compiler of the abstract query generator\<close>

text \<open>
  A shallow embedding of \<^verbatim>\<open>query-generator-typescript.ts\<close>: the class
  \<^verbatim>\<open>AbstractQueryGeneratorTypeScript\<close> (operand formatting and value escaping) and the class
  \<^verbatim>\<open>WhereSqlBuilder\<close> (the recursive compiler of where options), with the three string helpers
  \<^verbatim>\<open>joinWithLogicalOperator\<close>, \<^verbatim>\<open>wrapWithNot\<close> and \<^verbatim>\<open>wrapAmbiguousWhere\<close>.

  Strings are lists of 8-bit characters. Numbers are integers (no claim depends on
  a fraction). The object pool of \<^verbatim>\<open>PojoWhere\<close> records is left out: every pooled record
  is written before it is read and read before any nested call, so a fresh pair is the same.
  The deprecation notice \<^verbatim>\<open>noOpCol()\<close> only logs and is left out too.
\<close>

subsection \<open>Operators, data types, values\<close>

text \<open>The symbols of \<^verbatim>\<open>Op\<close> that the source file names.\<close>

datatype op =
    Op_eq | Op_ne | Op_gte | Op_gt | Op_lte | Op_lt
  | Op_is | Op_isNot | Op_in | Op_notIn
  | Op_like | Op_notLike | Op_iLike | Op_notILike
  | Op_regexp | Op_notRegexp | Op_iRegexp | Op_notIRegexp
  | Op_between | Op_notBetween
  | Op_overlap | Op_contains | Op_contained | Op_adjacent
  | Op_strictLeft | Op_strictRight | Op_noExtendRight | Op_noExtendLeft
  | Op_any | Op_all | Op_match | Op_anyKeyExists | Op_allKeysExist
  | Op_startsWith | Op_notStartsWith | Op_endsWith | Op_notEndsWith
  | Op_substring | Op_notSubstring
  | Op_not | Op_and | Op_or | Op_values | Op_col

text \<open>
  A data type as the code tests it: \<^verbatim>\<open>typeof type === 'string'\<close> (the name of an SQL type),
  \<^verbatim>\<open>instanceof DataTypes.JSON\<close>, \<^verbatim>\<open>ARRAY\<close>, \<^verbatim>\<open>RANGE\<close> (with their element type), and every
  other data type by its name.
\<close>

datatype dtype =
    SqlTypeName string
  | JSON
  | ARRAY dtype
  | RANGE dtype
  | TEXT
  | Scalar string

text \<open>A property key of a plain object: a string or an operator symbol.\<close>

datatype key = KStr string | KOp op

text \<open>
  JavaScript values, and the subclasses of \<^verbatim>\<open>SequelizeMethod\<close>. A plain object is the list
  of its own properties, each key once, in the order the runtime enumerates them. \<^verbatim>\<open>Other\<close> is any object
  that is neither plain, nor an array, nor a \<^verbatim>\<open>SequelizeMethod\<close> (a \<^verbatim>\<open>Date\<close>, a \<^verbatim>\<open>Buffer\<close>).
\<close>

datatype jsval =
    Undefined
  | Null
  | Bool bool
  | Num int
  | Str string
  | Arr "jsval list"
  | Obj "(key \<times> jsval) list"
  | Method sqlmethod
  | Other string
and sqlmethod =
    Literal "lpart list"
  | Fn string "jsval list"
  | List "jsval list"
  | Value jsval
  | Identifier string
  | Cast jsval dtype
  | Col "jsval list"
  | Attribute string
  | Where wherearg
  | JsonPath jsval "string list"
  | AssociationPath "string list" string
  | UnknownMethod string
and lpart =
    PStr string
  | PMethod sqlmethod
and wherearg =
    PojoWhere jsval jsval
  | WhereOptions jsval

text \<open>
  Errors are values. The first field is the fixed part of the message (the output of
  \<^verbatim>\<open>NodeUtil.inspect\<close> is left out), the second the \<^verbatim>\<open>cause\<close>.
\<close>

datatype error =
    TypeError string "error option"
  | Error string

text \<open>
  The outcome of a call: it returns, it throws, or its recursion never ends
  (\<open>Diverges\<close>, the value of a call that has used up its fuel, see \<open>queryGenerator\<close>).
\<close>

datatype 'a outcome = Diverges | Throws error | Returns 'a

fun obind :: "'a outcome \<Rightarrow> ('a \<Rightarrow> 'b outcome) \<Rightarrow> 'b outcome" where
  "obind Diverges f = Diverges"
| "obind (Throws e) f = Throws e"
| "obind (Returns x) f = f x"

fun lift :: "error + 'a \<Rightarrow> 'a outcome" where
  "lift (Inl e) = Throws e"
| "lift (Inr x) = Returns x"

text \<open>\<^verbatim>\<open>xs.map(f)\<close> where \<open>f\<close> may throw: the elements in order, the first failure ends it.\<close>

fun traverse :: "('a \<Rightarrow> 'b outcome) \<Rightarrow> 'a list \<Rightarrow> 'b list outcome" where
  "traverse f [] = Returns []"
| "traverse f (x # xs) =
     obind (f x) (\<lambda>y. obind (traverse f xs) (\<lambda>ys. Returns (y # ys)))"

text \<open>The same with a state that each call may change (a captured \<^verbatim>\<open>let\<close> variable).\<close>

fun traverse_st :: "('a \<Rightarrow> 's \<Rightarrow> ('b \<times> 's) outcome) \<Rightarrow> 'a list \<Rightarrow> 's \<Rightarrow> ('b list \<times> 's) outcome" where
  "traverse_st f [] s = Returns ([], s)"
| "traverse_st f (x # xs) s =
     obind (f x s) (\<lambda>(y, s'). obind (traverse_st f xs s') (\<lambda>(ys, s''). Returns (y # ys, s'')))"

lemma obind_cong [fundef_cong]:
  "m = m' \<Longrightarrow> (\<And>x. m' = Returns x \<Longrightarrow> f x = g x) \<Longrightarrow> obind m f = obind m' g"
  by (cases m') auto

lemma traverse_cong [fundef_cong]:
  "xs = ys \<Longrightarrow> (\<And>x. x \<in> set ys \<Longrightarrow> f x = g x) \<Longrightarrow> traverse f xs = traverse g ys"
  by (induction ys arbitrary: xs) auto

lemma traverse_st_cong [fundef_cong]:
  "xs = ys \<Longrightarrow> s = t \<Longrightarrow> (\<And>x u. x \<in> set ys \<Longrightarrow> f x u = g x u)
     \<Longrightarrow> traverse_st f xs s = traverse_st g ys t"
proof (induction ys arbitrary: xs s t)
  case Nil
  then show ?case by simp
next
  case (Cons y ys)
  have "traverse_st f ys u = traverse_st g ys u" for u
    by (rule Cons.IH) (simp_all add: Cons.prems)
  then show ?case using Cons.prems by simp
qed

text \<open>\<^verbatim>\<open>xs.join(sep)\<close>.\<close>

fun join :: "string \<Rightarrow> string list \<Rightarrow> string" where
  "join sep [] = []"
| "join sep [x] = x"
| "join sep (x # y # ys) = x @ sep @ join sep (y # ys)"

subsection \<open>The string helpers\<close>

text \<open>
  The regular expression \<^verbatim>\<open>/ AND | OR /i\<close>. Without the \<^verbatim>\<open>u\<close> flag, \<^verbatim>\<open>i\<close> compares
  characters after \<open>canonicalize\<close>, which maps a letter to its upper case; the letters of the
  pattern are ASCII, so only ASCII letters matter. \<^verbatim>\<open>test\<close> tries every start position, and at
  each one the first alternative, then the second.
\<close>

definition canonicalize :: "char \<Rightarrow> char" where
  "canonicalize c =
     (case map_of (zip ''abcdefghijklmnopqrstuvwxyz'' ''ABCDEFGHIJKLMNOPQRSTUVWXYZ'') c of
        Some u \<Rightarrow> u
      | None \<Rightarrow> c)"

fun matches_at :: "string \<Rightarrow> string \<Rightarrow> bool" where
  "matches_at [] s = True"
| "matches_at (p # ps) [] = False"
| "matches_at (p # ps) (c # cs) = (canonicalize c = p \<and> matches_at ps cs)"

fun regex_and_or_test :: "string \<Rightarrow> bool" where
  "regex_and_or_test [] = False"
| "regex_and_or_test (c # cs) =
     (matches_at '' AND '' (c # cs) \<or> matches_at '' OR '' (c # cs) \<or> regex_and_or_test cs)"

definition joinWithLogicalOperator :: "string list \<Rightarrow> op \<Rightarrow> string" where
  "joinWithLogicalOperator sqlArray operator =
     (let operatorSql = (if operator = Op_and then '' AND '' else '' OR '');
          sqlArray' = filter (\<lambda>val. val \<noteq> []) sqlArray
      in if length sqlArray' = 0 then []
         else if length sqlArray' = 1 then hd sqlArray'
         else join operatorSql
                (map (\<lambda>sql. if regex_and_or_test sql then ''('' @ sql @ '')'' else sql) sqlArray'))"

definition startsWith :: "string \<Rightarrow> string \<Rightarrow> bool" where
  "startsWith s p = (take (length p) s = p)"

definition endsWith :: "string \<Rightarrow> string \<Rightarrow> bool" where
  "endsWith s p = (length p \<le> length s \<and> drop (length s - length p) s = p)"

definition wrapWithNot :: "string \<Rightarrow> string" where
  "wrapWithNot sql =
     (if sql = [] then []
      else if startsWith sql ''('' \<and> endsWith sql '')'' then ''NOT '' @ sql
      else ''NOT ('' @ sql @ '')'')"

fun is_Where :: "jsval \<Rightarrow> bool" where
  "is_Where (Method (Where w)) = True"
| "is_Where v = False"

definition wrapAmbiguousWhere :: "jsval \<Rightarrow> string \<Rightarrow> string" where
  "wrapAmbiguousWhere operand sql =
     (if is_Where operand \<and> CHR '' '' \<in> set sql then ''('' @ sql @ '')'' else sql)"

text \<open>\<^verbatim>\<open>#wrapJsonPath\<close>: an empty path changes nothing, a JSON path is extended, not nested.\<close>

fun wrapJsonPath :: "jsval \<Rightarrow> string list \<Rightarrow> jsval" where
  "wrapJsonPath operand [] = operand"
| "wrapJsonPath (Method (JsonPath v p)) jsonPath = Method (JsonPath v (p @ jsonPath))"
| "wrapJsonPath operand jsonPath = Method (JsonPath operand jsonPath)"

subsection \<open>Collaborators: model metadata, options, dialect services\<close>

text \<open>
  What the code reads of a model class: \<^verbatim>\<open>modelDefinition.getColumnNameLoose\<close>, the declared
  type of an attribute (\<^verbatim>\<open>modelDefinition.attributes.get(name)?.type\<close>) and
  \<^verbatim>\<open>modelDefinition.getAssociation\<close>, which gives the target model.
\<close>

datatype modelStatic =
  ModelStatic (getColumnNameLoose: "string \<Rightarrow> string")
              (attributeType: "string \<Rightarrow> dtype option")
              (getAssociation: "string list \<Rightarrow> modelStatic option")

text \<open>
  The option bag (\<^verbatim>\<open>FormatWhereOptions\<close>, \<^verbatim>\<open>EscapeOptions\<close>). \<^verbatim>\<open>bindParam\<close> is the caller's
  callback; what it records on the side is the caller's own.
\<close>

record options =
  bindParam :: "(jsval \<Rightarrow> string) option"
  replacements :: "jsval option"
  model :: "modelStatic option"
  type :: "dtype option"

definition EMPTY_OBJECT :: options where
  "EMPTY_OBJECT = \<lparr>bindParam = None, replacements = None, model = None, type = None\<rparr>"

text \<open>
  The functions of this repository that the two classes call and that are defined in other
  files, taken as parameters: the dialect (\<^verbatim>\<open>name\<close>, \<^verbatim>\<open>supports.jsonOperations\<close>,
  \<^verbatim>\<open>escapeString\<close>, the identifier quoting of \<^verbatim>\<open>utils/dialect.js\<close>), the method \<^verbatim>\<open>quote\<close> of the
  child class, \<^verbatim>\<open>sequelize.normalizeDataType\<close>, \<^verbatim>\<open>sequelize.options.noTypeValidation\<close>,
  \<^verbatim>\<open>attributeTypeToSql\<close>, \<^verbatim>\<open>validateDataType\<close>, \<^verbatim>\<open>bestGuessDataTypeOfVal\<close>, the methods
  \<^verbatim>\<open>escape\<close> and \<^verbatim>\<open>getBindParamSql\<close> of a data type, \<^verbatim>\<open>parseAttributeSyntax\<close> and
  \<^verbatim>\<open>injectReplacements\<close>. A function that can throw returns a sum.
  \<^verbatim>\<open>jsonPathExtractionQuery2\<close> is a method of the class that a dialect overrides: \<open>None\<close> is the
  abstract class itself.
\<close>

record env =
  dialectName :: string
  supportsJsonOperations :: bool
  jsonPathExtractionQuery2_override :: "(string \<Rightarrow> string list \<Rightarrow> error + string) option"
  quoteIdentifier :: "string \<Rightarrow> string"
  escapeString :: "string \<Rightarrow> string"
  quote :: "jsval \<Rightarrow> modelStatic option \<Rightarrow> options \<Rightarrow> error + string"
  normalizeDataType :: "dtype \<Rightarrow> dtype"
  noTypeValidation :: bool
  attributeTypeToSql :: "dtype \<Rightarrow> string"
  validateDataType :: "jsval \<Rightarrow> dtype \<Rightarrow> error option"
  bestGuessDataTypeOfVal :: "jsval \<Rightarrow> error + dtype"
  typeEscape :: "dtype \<Rightarrow> jsval \<Rightarrow> error + string"
  typeGetBindParamSql :: "dtype \<Rightarrow> jsval \<Rightarrow> options \<Rightarrow> error + string"
  parseAttributeSyntax :: "string \<Rightarrow> error + sqlmethod"
  injectReplacements :: "string \<Rightarrow> jsval \<Rightarrow> error + string"

text \<open>
  The two methods of the query generator that every cycle of calls passes through, as the
  callee sees them through \<^verbatim>\<open>this\<close> (and the where builder through \<^verbatim>\<open>this.queryGenerator\<close>).
\<close>

record generator =
  this_escape :: "jsval \<Rightarrow> options \<Rightarrow> string outcome"
  this_formatSequelizeMethod :: "sqlmethod \<Rightarrow> options \<Rightarrow> string outcome"

subsection \<open>The where builder\<close>

fun operatorMap :: "op \<Rightarrow> string option" where
  "operatorMap Op_eq = Some ''=''"
| "operatorMap Op_ne = Some ''!=''"
| "operatorMap Op_gte = Some ''>=''"
| "operatorMap Op_gt = Some ''>''"
| "operatorMap Op_lte = Some ''<=''"
| "operatorMap Op_lt = Some ''<''"
| "operatorMap Op_is = Some ''IS''"
| "operatorMap Op_isNot = Some ''IS NOT''"
| "operatorMap Op_in = Some ''IN''"
| "operatorMap Op_notIn = Some ''NOT IN''"
| "operatorMap Op_like = Some ''LIKE''"
| "operatorMap Op_notLike = Some ''NOT LIKE''"
| "operatorMap Op_iLike = Some ''ILIKE''"
| "operatorMap Op_notILike = Some ''NOT ILIKE''"
| "operatorMap Op_regexp = Some ''~''"
| "operatorMap Op_notRegexp = Some ''!~''"
| "operatorMap Op_iRegexp = Some ''~*''"
| "operatorMap Op_notIRegexp = Some ''!~*''"
| "operatorMap Op_between = Some ''BETWEEN''"
| "operatorMap Op_notBetween = Some ''NOT BETWEEN''"
| "operatorMap Op_overlap = Some ''&&''"
| "operatorMap Op_contains = Some ''@>''"
| "operatorMap Op_contained = Some ''<@''"
| "operatorMap Op_adjacent = Some ''-|-''"
| "operatorMap Op_strictLeft = Some ''<<''"
| "operatorMap Op_strictRight = Some ''>>''"
| "operatorMap Op_noExtendRight = Some ''&<''"
| "operatorMap Op_noExtendLeft = Some ''&>''"
| "operatorMap Op_any = Some ''ANY''"
| "operatorMap Op_all = Some ''ALL''"
| "operatorMap Op_match = Some ''@@''"
| "operatorMap Op_anyKeyExists = Some ''?|''"
| "operatorMap Op_allKeysExist = Some ''?&''"
| "operatorMap operator = None"

text \<open>\<^verbatim>\<open>${this.operatorMap[operator]}\<close> inside a template string.\<close>

definition operatorText :: "op \<Rightarrow> string" where
  "operatorText operator = (case operatorMap operator of Some s \<Rightarrow> s | None \<Rightarrow> ''undefined'')"

definition jsonType :: dtype where
  "jsonType = JSON"

definition arrayOfTextType :: dtype where
  "arrayOfTextType = ARRAY TEXT"

text \<open>\<^verbatim>\<open>a ?? b\<close>.\<close>

fun coalesce :: "'a option \<Rightarrow> 'a option \<Rightarrow> 'a option" where
  "coalesce None b = b"
| "coalesce (Some a) b = Some a"

fun is_Arr :: "jsval \<Rightarrow> bool" where
  "is_Arr (Arr xs) = True"
| "is_Arr v = False"

fun is_Literal :: "jsval \<Rightarrow> bool" where
  "is_Literal (Method (Literal ps)) = True"
| "is_Literal v = False"

fun is_SequelizeMethod :: "jsval \<Rightarrow> bool" where
  "is_SequelizeMethod (Method m) = True"
| "is_SequelizeMethod v = False"

fun is_JsonPath :: "jsval \<Rightarrow> bool" where
  "is_JsonPath (Method (JsonPath v p)) = True"
| "is_JsonPath v = False"

fun is_ARRAY :: "dtype option \<Rightarrow> bool" where
  "is_ARRAY (Some (ARRAY t)) = True"
| "is_ARRAY t = False"

fun is_KStr :: "key \<times> jsval \<Rightarrow> bool" where
  "is_KStr (KStr k, v) = True"
| "is_KStr (KOp k, v) = False"

text \<open>
  The helpers of \<^verbatim>\<open>utils/where.js\<close>, with each key paired with its value: \<^verbatim>\<open>Object.keys\<close>
  gives the string keys, \<^verbatim>\<open>getOperators\<close> the operator symbols, \<^verbatim>\<open>getComplexKeys\<close> the
  operators followed by the string keys.
\<close>

definition objectKeys :: "(key \<times> jsval) list \<Rightarrow> (key \<times> jsval) list" where
  "objectKeys es = filter is_KStr es"

definition getOperators :: "(key \<times> jsval) list \<Rightarrow> (key \<times> jsval) list" where
  "getOperators es = filter (\<lambda>e. \<not> is_KStr e) es"

definition getComplexKeys :: "(key \<times> jsval) list \<Rightarrow> (key \<times> jsval) list" where
  "getComplexKeys es = getOperators es @ objectKeys es"

text \<open>\<^verbatim>\<open>#getOperandType\<close>. The attribute of an association path is a string, so its type is unknown.\<close>

fun getOperandType :: "env \<Rightarrow> jsval \<Rightarrow> modelStatic option \<Rightarrow> dtype option" where
  "getOperandType env operand None = None"
| "getOperandType env (Method (Cast v t)) (Some m) = Some (normalizeDataType env t)"
| "getOperandType env (Method (JsonPath v p)) (Some m) =
     coalesce (getOperandType env v (Some m)) (Some jsonType)"
| "getOperandType env (Method (AssociationPath associationPath attribute)) (Some m) =
     (case getAssociation m associationPath of
        None \<Rightarrow> None
      | Some target \<Rightarrow> getOperandType env (Str attribute) (Some target))"
| "getOperandType env (Method (Attribute attributeName)) (Some m) = attributeType m attributeName"
| "getOperandType env operand (Some m) = None"

text \<open>\<^verbatim>\<open>escapeList\<close> of the query generator.\<close>

definition escapeList :: "generator \<Rightarrow> jsval list \<Rightarrow> options \<Rightarrow> string outcome" where
  "escapeList this values options' =
     obind (traverse (\<lambda>v. this_escape this v options') values)
       (\<lambda>sqls. Returns (''('' @ join '', '' sqls @ '')''))"

definition formatOpValues :: "generator \<Rightarrow> jsval \<Rightarrow> dtype option \<Rightarrow> string outcome" where
  "formatOpValues qg v t =
     (case (case v of Obj es \<Rightarrow> map_of es (KOp Op_values) | _ \<Rightarrow> None) of
        Some vals \<Rightarrow>
          (let options' = EMPTY_OBJECT\<lparr>type := t\<rparr>;
               operand = (case vals of Arr vs \<Rightarrow> vs | _ \<Rightarrow> [vals])
           in obind (traverse (\<lambda>x. obind (this_escape qg x options')
                                      (\<lambda>s. Returns (''('' @ s @ '')''))) operand)
                (\<lambda>valueSql. Returns (''VALUES '' @ join '', '' valueSql)))
      | None \<Rightarrow> this_escape qg v (EMPTY_OBJECT\<lparr>type := map_option ARRAY t\<rparr>))"

definition formatOpAnyAll :: "generator \<Rightarrow> jsval \<Rightarrow> dtype option \<Rightarrow> string outcome" where
  "formatOpAnyAll qg v t =
     (case v of
        Obj es \<Rightarrow>
          (case map_of es (KOp Op_any) of
             Some x \<Rightarrow> obind (formatOpValues qg x t) (\<lambda>s. Returns (''ANY ('' @ s @ '')''))
           | None \<Rightarrow>
               (case map_of es (KOp Op_all) of
                  Some x \<Rightarrow> obind (formatOpValues qg x t) (\<lambda>s. Returns (''ALL ('' @ s @ '')''))
                | None \<Rightarrow> Returns []))
      | _ \<Rightarrow> Returns [])"

definition formatBinaryOperation ::
  "generator \<Rightarrow> jsval \<Rightarrow> dtype option \<Rightarrow> op \<Rightarrow> jsval \<Rightarrow> dtype option \<Rightarrow> options \<Rightarrow> string outcome" where
  "formatBinaryOperation qg left leftDataType operator right rightDataType options' =
     (case operatorMap operator of
        None \<Rightarrow> Throws (TypeError ''Operator does not exist or is not supported by this dialect.'' None)
      | Some operatorSql \<Rightarrow>
          obind (this_escape qg left (options'\<lparr>type := coalesce leftDataType rightDataType\<rparr>))
            (\<lambda>leftSql.
          obind (formatOpAnyAll qg right (coalesce rightDataType leftDataType))
            (\<lambda>anyAll.
          obind (if anyAll \<noteq> [] then Returns anyAll
                 else this_escape qg right (options'\<lparr>type := coalesce rightDataType leftDataType\<rparr>))
            (\<lambda>rightSql.
          Returns (wrapAmbiguousWhere left leftSql @ '' '' @ operatorText operator @ '' ''
                   @ wrapAmbiguousWhere right rightSql)))))"

text \<open>The operator methods, \<^verbatim>\<open>[Op.in]\<close> and the others, all of one signature.\<close>

type_synonym handler =
  "env \<Rightarrow> generator \<Rightarrow> jsval \<Rightarrow> dtype option \<Rightarrow> op \<Rightarrow> jsval \<Rightarrow> dtype option \<Rightarrow> options
     \<Rightarrow> string outcome"

definition op_in :: handler where
  "op_in env qg left leftDataType operator right rightDataType options' =
     (let rightEscapeOptions = options'\<lparr>type := coalesce rightDataType leftDataType\<rparr>;
          leftEscapeOptions = options'\<lparr>type := coalesce leftDataType rightDataType\<rparr>;
          finish = (\<lambda>rightSql.
            obind (this_escape qg left leftEscapeOptions)
              (\<lambda>leftSql. Returns (leftSql @ '' '' @ operatorText operator @ '' '' @ rightSql)))
      in if is_Literal right then obind (this_escape qg right rightEscapeOptions) finish
         else case right of
                Arr vs \<Rightarrow>
                  if length vs = 0 then
                    (if operator = Op_notIn then Returns [] else finish ''(NULL)'')
                  else obind (escapeList qg vs rightEscapeOptions) finish
              | _ \<Rightarrow> Throws (TypeError
                  ''Operators Op.in and Op.notIn must be called with an array of values, or a literal''
                  None))"

definition op_notIn :: handler where
  "op_notIn = op_in"

definition op_is :: handler where
  "op_is env qg left leftDataType operator right rightDataType options' =
     (if right \<noteq> Null \<and> (case right of Bool b \<Rightarrow> False | _ \<Rightarrow> True) \<and> \<not> is_Literal right then
        Throws (Error ''Operators Op.is and Op.isNot can only be used with null, true, false or a literal.'')
      else formatBinaryOperation qg left leftDataType operator right rightDataType options')"

definition op_isNot :: handler where
  "op_isNot = op_is"

definition op_between :: handler where
  "op_between env qg left leftDataType operator right rightDataType options' =
     (let rightEscapeOptions = options'\<lparr>type := coalesce rightDataType leftDataType\<rparr>;
          leftEscapeOptions = options'\<lparr>type := coalesce leftDataType rightDataType\<rparr>
      in obind (this_escape qg left leftEscapeOptions)
           (\<lambda>leftSql.
         obind (if is_SequelizeMethod right then this_escape qg right rightEscapeOptions
                else case right of
                       Arr [right0, right1] \<Rightarrow>
                         obind (this_escape qg right0 rightEscapeOptions)
                           (\<lambda>sql0.
                         obind (this_escape qg right1 rightEscapeOptions)
                           (\<lambda>sql1. Returns (sql0 @ '' AND '' @ sql1)))
                     | _ \<Rightarrow> Throws (Error
                         ''Operators Op.between and Op.notBetween must be used with an array of two values, or a literal.''))
           (\<lambda>rightSql. Returns (leftSql @ '' '' @ operatorText operator @ '' '' @ rightSql))))"

definition op_notBetween :: handler where
  "op_notBetween = op_between"

definition op_contains :: handler where
  "op_contains env qg left leftDataType operator right rightDataType options' =
     (case (rightDataType, leftDataType) of
        (None, Some (RANGE subtype)) \<Rightarrow>
          if \<not> is_Arr right then
            formatBinaryOperation qg left leftDataType operator right (Some subtype) options'
          else formatBinaryOperation qg left leftDataType operator right rightDataType options'
      | _ \<Rightarrow> formatBinaryOperation qg left leftDataType operator right rightDataType options')"

fun is_plain_type :: "dtype option \<Rightarrow> bool" where
  "is_plain_type None = False"
| "is_plain_type (Some (SqlTypeName n)) = False"
| "is_plain_type (Some (RANGE t)) = False"
| "is_plain_type (Some (ARRAY t)) = False"
| "is_plain_type (Some t) = True"

definition op_contained :: handler where
  "op_contained env qg left leftDataType operator right rightDataType options' =
     (if is_plain_type leftDataType \<and> is_Arr right then
        formatBinaryOperation qg left leftDataType operator right (map_option RANGE leftDataType) options'
      else formatBinaryOperation qg left leftDataType operator right rightDataType options')"

definition formatSubstring ::
  "env \<Rightarrow> generator \<Rightarrow> jsval \<Rightarrow> dtype option \<Rightarrow> op \<Rightarrow> jsval \<Rightarrow> dtype option \<Rightarrow> options
     \<Rightarrow> bool \<Rightarrow> bool \<Rightarrow> string outcome" where
  "formatSubstring env qg left leftDataType operator right rightDataType options' start end' =
     (case right of
        Str s \<Rightarrow>
          (let startToken = (if start then ''%'' else []);
               endToken = (if end' then ''%'' else [])
           in formatBinaryOperation qg left leftDataType operator (Str (startToken @ s @ endToken))
                rightDataType options')
      | _ \<Rightarrow>
          (let escapedPercent = escapeString env ''%'';
               literalBuilder =
                 [PStr ''CONCAT('']
                 @ (if start then [PStr escapedPercent, PStr '', ''] else [])
                 @ [PMethod (Value right)]
                 @ (if end' then [PStr '', '', PStr escapedPercent] else [])
                 @ [PStr '')'']
           in formatBinaryOperation qg left leftDataType operator (Method (Literal literalBuilder))
                rightDataType options'))"

definition op_startsWith :: handler where
  "op_startsWith env qg left leftDataType operator right rightDataType options' =
     formatSubstring env qg left leftDataType Op_like right rightDataType options' False True"

definition op_notStartsWith :: handler where
  "op_notStartsWith env qg left leftDataType operator right rightDataType options' =
     formatSubstring env qg left leftDataType Op_notLike right rightDataType options' False True"

definition op_endsWith :: handler where
  "op_endsWith env qg left leftDataType operator right rightDataType options' =
     formatSubstring env qg left leftDataType Op_like right rightDataType options' True False"

definition op_notEndsWith :: handler where
  "op_notEndsWith env qg left leftDataType operator right rightDataType options' =
     formatSubstring env qg left leftDataType Op_notLike right rightDataType options' True False"

definition op_substring :: handler where
  "op_substring env qg left leftDataType operator right rightDataType options' =
     formatSubstring env qg left leftDataType Op_like right rightDataType options' True True"

definition op_notSubstring :: handler where
  "op_notSubstring env qg left leftDataType operator right rightDataType options' =
     formatSubstring env qg left leftDataType Op_notLike right rightDataType options' True True"

definition op_anyKeyExists :: handler where
  "op_anyKeyExists env qg left leftDataType operator right rightDataType options' =
     formatBinaryOperation qg left leftDataType operator right (Some arrayOfTextType) options'"

definition op_allKeysExist :: handler where
  "op_allKeysExist env qg left leftDataType operator right rightDataType options' =
     formatBinaryOperation qg left leftDataType operator right (Some arrayOfTextType) options'"

text \<open>\<^verbatim>\<open>operator in this\<close> and \<^verbatim>\<open>this[operator]\<close>: the operators that have a method.\<close>

fun handler_of :: "op \<Rightarrow> handler option" where
  "handler_of Op_notIn = Some op_notIn"
| "handler_of Op_in = Some op_in"
| "handler_of Op_isNot = Some op_isNot"
| "handler_of Op_is = Some op_is"
| "handler_of Op_notBetween = Some op_notBetween"
| "handler_of Op_between = Some op_between"
| "handler_of Op_contains = Some op_contains"
| "handler_of Op_contained = Some op_contained"
| "handler_of Op_startsWith = Some op_startsWith"
| "handler_of Op_notStartsWith = Some op_notStartsWith"
| "handler_of Op_endsWith = Some op_endsWith"
| "handler_of Op_notEndsWith = Some op_notEndsWith"
| "handler_of Op_substring = Some op_substring"
| "handler_of Op_notSubstring = Some op_notSubstring"
| "handler_of Op_anyKeyExists = Some op_anyKeyExists"
| "handler_of Op_allKeysExist = Some op_allKeysExist"
| "handler_of operator = None"

text \<open>
  The operator of a leaf comparison, as the callback of \<^verbatim>\<open>formatPojoWhere\<close> settles it
  before it resolves the right operand's type: a missing operator is inferred from the right
  operand, and a \<^verbatim>\<open>null\<close> right operand turns \<^verbatim>\<open>=\<close> into \<^verbatim>\<open>IS\<close> and \<^verbatim>\<open>!=\<close> into \<^verbatim>\<open>IS NOT\<close>.
\<close>

definition inferOperator :: "dtype option \<Rightarrow> op option \<Rightarrow> jsval \<Rightarrow> op" where
  "inferOperator leftDataType operator right =
     (case operator of
        None \<Rightarrow> (if is_Arr right \<and> \<not> is_ARRAY leftDataType then Op_in
                 else if right = Null then Op_is
                 else Op_eq)
      | Some operator' \<Rightarrow> operator')"

definition nullOperator :: "op \<Rightarrow> jsval \<Rightarrow> op" where
  "nullOperator operator right =
     (if right = Null then
        (if operator = Op_eq then Op_is else if operator = Op_ne then Op_isNot else operator)
      else operator)"

text \<open>
  The callback that \<^verbatim>\<open>formatPojoWhere\<close> passes down. It assigns the captured variable
  \<^verbatim>\<open>leftDataType\<close>, so the variable goes in and comes out.
\<close>

definition formatPojoWhere_handlePart ::
  "env \<Rightarrow> generator \<Rightarrow> options \<Rightarrow> jsval \<Rightarrow> op option \<Rightarrow> jsval \<Rightarrow> dtype option
     \<Rightarrow> (string \<times> dtype option) outcome" where
  "formatPojoWhere_handlePart env qg options' left operator0 right0 leftDataType0 =
     (let leftDataType =
            (if leftDataType0 = None \<and> is_JsonPath left then Some jsonType else leftDataType0);
          (operator1, right1) =
            (if operator0 = Some Op_col then (Some Op_eq, Method (Col [right0]))
             else (operator0, right0));
          (operator2, right2) =
            (if operator1 = Some Op_any then (Some Op_eq, Obj [(KOp Op_any, right1)])
             else if operator1 = Some Op_all then (Some Op_eq, Obj [(KOp Op_all, right1)])
             else (operator1, right1));
          operator3 = nullOperator (inferOperator leftDataType operator2 right2) right2
      in obind (case right2 of
                  Method (Attribute a) \<Rightarrow>
                    obind (lift (parseAttributeSyntax env a)) (\<lambda>parsed. Returns (Method parsed))
                | _ \<Rightarrow> Returns right2)
           (\<lambda>right.
         let rightDataType = getOperandType env right (model options')
         in obind (case handler_of operator3 of
                     Some h \<Rightarrow> h env qg left leftDataType operator3 right rightDataType options'
                   | None \<Rightarrow> formatBinaryOperation qg left leftDataType operator3 right rightDataType
                               options')
              (\<lambda>sql. Returns (sql, leftDataType))))"

text \<open>A value stored in a plain object or an array is smaller than the object or the array.\<close>

lemma size_entry:
  "(k, v) \<in> set es \<Longrightarrow> size v \<le> size_list (size_prod (\<lambda>x. 0) size) es"
  by (induction es) auto

lemma size_element: "v \<in> set vs \<Longrightarrow> size (v :: jsval) \<le> size_list size vs"
  by (induction vs) auto

text \<open>
  \<^verbatim>\<open>#handleRecursiveNotOrAndNestedPathRecursive\<close>: the level after an attribute name. The
  callback's variable is threaded through the calls in the order \<^verbatim>\<open>map\<close> makes them.
\<close>

function handleRecursiveNotOrAndNestedPathRecursive ::
  "jsval \<Rightarrow> jsval \<Rightarrow> bool \<Rightarrow> (jsval \<Rightarrow> op option \<Rightarrow> jsval \<Rightarrow> 's \<Rightarrow> (string \<times> 's) outcome)
     \<Rightarrow> op \<Rightarrow> string list \<Rightarrow> 's \<Rightarrow> (string \<times> 's) outcome" where
  "handleRecursiveNotOrAndNestedPathRecursive leftOperand whereValue allowJsonPath handlePart
       operator parentJsonPath s =
     (case whereValue of
        Obj es \<Rightarrow>
          if \<not> allowJsonPath \<and> length (objectKeys es) > 0 then
            handlePart (wrapJsonPath leftOperand parentJsonPath) None whereValue s
          else
            obind (traverse_st
                (\<lambda>(key, v) s1.
                   case key of
                     KStr k \<Rightarrow>
                       handleRecursiveNotOrAndNestedPathRecursive leftOperand v allowJsonPath
                         handlePart operator (parentJsonPath @ [k]) s1
                   | KOp k \<Rightarrow>
                       if k = Op_not then
                         obind (handleRecursiveNotOrAndNestedPathRecursive leftOperand v
                                  allowJsonPath handlePart Op_and parentJsonPath s1)
                           (\<lambda>(sql, s2). Returns (wrapWithNot sql, s2))
                       else if k = Op_and \<or> k = Op_or then
                         (case v of
                            Arr vs \<Rightarrow>
                              obind (traverse_st
                                  (\<lambda>x s2. handleRecursiveNotOrAndNestedPathRecursive leftOperand x
                                              allowJsonPath handlePart Op_and parentJsonPath s2)
                                  vs s1)
                                (\<lambda>(sqlParts, s3). Returns (joinWithLogicalOperator sqlParts k, s3))
                          | _ \<Rightarrow>
                              handleRecursiveNotOrAndNestedPathRecursive leftOperand v allowJsonPath
                                handlePart k parentJsonPath s1)
                       else handlePart (wrapJsonPath leftOperand parentJsonPath) (Some k) v s1)
                (objectKeys es @ getOperators es) s)
              (\<lambda>(parts, s4). Returns (joinWithLogicalOperator parts operator, s4))
      | _ \<Rightarrow> handlePart (wrapJsonPath leftOperand parentJsonPath) None whereValue s)"
  by pat_completeness auto
termination
  by (relation "measure (\<lambda>(leftOperand, whereValue, rest). size whereValue)")
     (auto simp: objectKeys_def getOperators_def dest!: size_entry size_element)

text \<open>What the callback of the first level receives: a \<^verbatim>\<open>SequelizeMethod\<close> or a \<^verbatim>\<open>PojoWhere\<close>.\<close>

datatype part = PartMethod sqlmethod | PartPojo jsval jsval

text \<open>
  \<^verbatim>\<open>#handleRecursiveNotOrAndWithImplicitAndArray\<close>: the level before an attribute name.
\<close>

function handleRecursiveNotOrAndWithImplicitAndArray ::
  "jsval \<Rightarrow> (part \<Rightarrow> string outcome) \<Rightarrow> op \<Rightarrow> string outcome" where
  "handleRecursiveNotOrAndWithImplicitAndArray input handlePart logicalOperator =
     (case input of
        Arr parts \<Rightarrow>
          obind (traverse
              (\<lambda>part. if part = Undefined then Returns []
                      else handleRecursiveNotOrAndWithImplicitAndArray part handlePart Op_and)
              parts)
            (\<lambda>sqls. Returns (joinWithLogicalOperator sqls logicalOperator))
      | Obj es \<Rightarrow>
          obind (traverse
              (\<lambda>(operatorOrAttribute, v).
                 case operatorOrAttribute of
                   KOp k \<Rightarrow>
                     if k = Op_not then
                       obind (handleRecursiveNotOrAndWithImplicitAndArray v handlePart Op_and)
                         (\<lambda>generatedResult. Returns (wrapWithNot generatedResult))
                     else if k = Op_and \<or> k = Op_or then
                       handleRecursiveNotOrAndWithImplicitAndArray v handlePart k
                     else Throws (TypeError
                       ''Invalid Query: includes a Symbol Operator but only attributes, Op.and, Op.or, and Op.not are allowed.''
                       None)
                 | KStr a \<Rightarrow> handlePart (PartPojo (Method (Attribute a)) v))
              (getComplexKeys es))
            (\<lambda>sqlArray. Returns (joinWithLogicalOperator sqlArray logicalOperator))
      | Method m \<Rightarrow> handlePart (PartMethod m)
      | _ \<Rightarrow> Throws (TypeError
          ''Invalid Query: expected a plain object, an array or a sequelize SQL method''
          None))"
  by pat_completeness auto
termination
  by (relation "measure (\<lambda>(input, rest). size input)")
     (auto simp: getComplexKeys_def objectKeys_def getOperators_def
           dest!: size_entry size_element)

text \<open>\<^verbatim>\<open>formatPojoWhere\<close>.\<close>

definition formatPojoWhere ::
  "env \<Rightarrow> generator \<Rightarrow> jsval \<Rightarrow> jsval \<Rightarrow> options \<Rightarrow> string outcome" where
  "formatPojoWhere env qg leftOperand whereValue options' =
     obind (case leftOperand of
              Method (Attribute a) \<Rightarrow>
                obind (lift (parseAttributeSyntax env a)) (\<lambda>parsed. Returns (Method parsed))
            | _ \<Rightarrow> Returns leftOperand)
       (\<lambda>leftPreJsonPath.
          let leftDataType = getOperandType env leftPreJsonPath (model options');
              operandIsJsonColumn = (leftDataType = None \<or> leftDataType = Some JSON)
          in obind (handleRecursiveNotOrAndNestedPathRecursive leftPreJsonPath whereValue
                      operandIsJsonColumn (formatPojoWhere_handlePart env qg options') Op_and []
                      leftDataType)
               (\<lambda>(sql, leftDataType'). Returns sql))"

text \<open>\<^verbatim>\<open>formatWhereOptions\<close>: every error of the compilation is wrapped in a \<^verbatim>\<open>TypeError\<close>.\<close>

definition formatWhereOptions :: "env \<Rightarrow> generator \<Rightarrow> jsval \<Rightarrow> options \<Rightarrow> string outcome" where
  "formatWhereOptions env qg where' options' =
     (case where' of
        Str s \<Rightarrow> Throws (TypeError
          ''Support for { where: raw query } has been removed. Use { where: literal(raw query) } instead''
          None)
      | _ \<Rightarrow>
          (case handleRecursiveNotOrAndWithImplicitAndArray where'
                  (\<lambda>piece. case piece of
                              PartMethod m \<Rightarrow> this_formatSequelizeMethod qg m options'
                            | PartPojo leftOperand whereValue \<Rightarrow>
                                formatPojoWhere env qg leftOperand whereValue options')
                  Op_and of
             Throws e \<Rightarrow> Throws (TypeError ''Invalid value received for the where option.'' (Some e))
           | r \<Rightarrow> r))"

declare handleRecursiveNotOrAndNestedPathRecursive.simps [simp del]
declare handleRecursiveNotOrAndWithImplicitAndArray.simps [simp del]

subsection \<open>The query generator\<close>

text \<open>\<^verbatim>\<open>String.prototype.toUpperCase\<close>, on ASCII.\<close>

definition toUpperCase :: "string \<Rightarrow> string" where
  "toUpperCase s = map canonicalize s"

definition formatAssociationPath :: "env \<Rightarrow> string list \<Rightarrow> string \<Rightarrow> string" where
  "formatAssociationPath env associationPath attribute =
     quoteIdentifier env (join ''->'' associationPath) @ ''.'' @ quoteIdentifier env attribute"

definition jsonPathExtractionQuery2 :: "env \<Rightarrow> string \<Rightarrow> string list \<Rightarrow> string outcome" where
  "jsonPathExtractionQuery2 env value' path =
     (case jsonPathExtractionQuery2_override env of
        Some f \<Rightarrow> lift (f value' path)
      | None \<Rightarrow>
          if \<not> supportsJsonOperations env then
            Throws (Error (''JSON operations are not supported in '' @ dialectName env @ ''.''))
          else
            Throws (Error (''jsonPathExtractionQuery not been implemented in '' @ dialectName env @ ''.'')))"

definition formatJsonPath ::
  "env \<Rightarrow> generator \<Rightarrow> jsval \<Rightarrow> string list \<Rightarrow> options \<Rightarrow> string outcome" where
  "formatJsonPath env this v path options' =
     obind (this_escape this v options')
       (\<lambda>value'. if length path = 0 then Returns value' else jsonPathExtractionQuery2 env value' path)"

text \<open>
  \<^verbatim>\<open>formatLiteral\<close>. For a part that is a \<^verbatim>\<open>SequelizeMethod\<close> the code formats \<^verbatim>\<open>piece\<close>, the
  literal itself, and not the part.
\<close>

definition formatLiteral :: "env \<Rightarrow> generator \<Rightarrow> lpart list \<Rightarrow> options \<Rightarrow> string outcome" where
  "formatLiteral env this val options' =
     obind (traverse
         (\<lambda>part. case part of
                   PMethod m \<Rightarrow> this_formatSequelizeMethod this (Literal val) options'
                 | PStr s \<Rightarrow> Returns s)
         val)
       (\<lambda>parts.
          let sql = concat parts
          in case replacements options' of
               Some r \<Rightarrow> lift (injectReplacements env sql r)
             | None \<Rightarrow> Returns sql)"

definition formatAttribute :: "env \<Rightarrow> generator \<Rightarrow> string \<Rightarrow> options \<Rightarrow> string outcome" where
  "formatAttribute env this a options' =
     obind (lift (parseAttributeSyntax env a))
       (\<lambda>parsedAttributeName.
          case parsedAttributeName of
            Attribute attributeName \<Rightarrow>
              (case model options' of
                 None \<Rightarrow> Returns (quoteIdentifier env attributeName)
               | Some m \<Rightarrow> Returns (quoteIdentifier env (getColumnNameLoose m attributeName)))
          | _ \<Rightarrow> this_formatSequelizeMethod this parsedAttributeName options')"

definition formatFn :: "generator \<Rightarrow> string \<Rightarrow> jsval list \<Rightarrow> options \<Rightarrow> string outcome" where
  "formatFn this fn args options' =
     obind (traverse
         (\<lambda>arg. case arg of
                  Method m \<Rightarrow> this_formatSequelizeMethod this m options'
                | _ \<Rightarrow> this_escape this arg options')
         args)
       (\<lambda>args'. Returns (fn @ ''('' @ join '', '' args' @ '')''))"

definition formatCast :: "env \<Rightarrow> generator \<Rightarrow> jsval \<Rightarrow> dtype \<Rightarrow> options \<Rightarrow> string outcome" where
  "formatCast env this v t options' =
     (let type' = normalizeDataType env t
      in obind (this_escape this v options')
           (\<lambda>sql. Returns (''CAST('' @ sql @ '' AS '' @ toUpperCase (attributeTypeToSql env type')
                            @ '')'')))"

text \<open>
  \<^verbatim>\<open>formatCol\<close>. An identifier that is not a string has no \<^verbatim>\<open>startsWith\<close>: the runtime throws.
\<close>

definition formatCol :: "env \<Rightarrow> jsval list \<Rightarrow> options \<Rightarrow> string outcome" where
  "formatCol env identifiers options' =
     (case identifiers of
        [x] \<Rightarrow>
          (case x of
             Str s \<Rightarrow>
               if startsWith s ''*'' then Returns ''*''
               else lift (quote env (Str s) (model options') options')
           | _ \<Rightarrow> Throws (TypeError ''piece.identifiers[0].startsWith is not a function'' None))
      | _ \<Rightarrow> lift (quote env (Arr identifiers) (model options') options'))"

definition formatSequelizeMethod ::
  "env \<Rightarrow> generator \<Rightarrow> sqlmethod \<Rightarrow> options \<Rightarrow> string outcome" where
  "formatSequelizeMethod env this piece options' =
     (case piece of
        Literal val \<Rightarrow> formatLiteral env this val options'
      | Fn fn args \<Rightarrow> formatFn this fn args options'
      | List values \<Rightarrow> escapeList this values options'
      | Value v \<Rightarrow> this_escape this v options'
      | Identifier v \<Rightarrow> Returns (quoteIdentifier env v)
      | Cast v t \<Rightarrow> formatCast env this v t options'
      | Col identifiers \<Rightarrow> formatCol env identifiers options'
      | Attribute a \<Rightarrow> formatAttribute env this a options'
      | Where w \<Rightarrow>
          (case w of
             PojoWhere leftOperand whereValue \<Rightarrow>
               formatPojoWhere env this leftOperand whereValue options'
           | WhereOptions where' \<Rightarrow> formatWhereOptions env this where' options')
      | JsonPath v path \<Rightarrow> formatJsonPath env this v path options'
      | AssociationPath associationPath attribute \<Rightarrow>
          Returns (formatAssociationPath env associationPath attribute)
      | UnknownMethod name \<Rightarrow> Returns (name @ '' TODO''))"

definition validate :: "env \<Rightarrow> jsval \<Rightarrow> dtype \<Rightarrow> unit outcome" where
  "validate env v t =
     (if noTypeValidation env \<or> v = Null \<or> v = Undefined then Returns ()
      else case t of
             SqlTypeName n \<Rightarrow> Returns ()
           | _ \<Rightarrow>
               (case validateDataType env v (normalizeDataType env t) of
                  Some e \<Rightarrow> Throws e
                | None \<Rightarrow> Returns ()))"

text \<open>\<^verbatim>\<open>escape\<close>.\<close>

definition escape :: "env \<Rightarrow> generator \<Rightarrow> jsval \<Rightarrow> options \<Rightarrow> string outcome" where
  "escape env this value0 options' =
     (let value' =
            (case value0 of
               Obj es \<Rightarrow>
                 (case map_of es (KOp Op_col) of
                    Some c \<Rightarrow> Method (Col [c])
                  | None \<Rightarrow> value0)
             | _ \<Rightarrow> value0)
      in case value' of
           Method m \<Rightarrow> this_formatSequelizeMethod this m options'
         | Undefined \<Rightarrow> Throws (TypeError ''undefined cannot be escaped'' None)
         | Null \<Rightarrow>
             (case bindParam options' of
                Some bind \<Rightarrow> Returns (bind Null)
              | None \<Rightarrow> Returns ''NULL'')
         | _ \<Rightarrow>
             obind (case type options' of
                      None \<Rightarrow> lift (bestGuessDataTypeOfVal env value')
                    | Some (SqlTypeName n) \<Rightarrow> lift (bestGuessDataTypeOfVal env value')
                    | Some t \<Rightarrow> Returns (normalizeDataType env t))
               (\<lambda>type'.
             obind (validate env value' type')
               (\<lambda>u. case bindParam options' of
                       Some bind \<Rightarrow> lift (typeGetBindParamSql env type' value' options')
                     | None \<Rightarrow> lift (typeEscape env type' value'))))"

text \<open>
  The object itself. The methods call one another through \<^verbatim>\<open>this\<close> without a bound, so
  the generator is built with fuel: each call of \<^verbatim>\<open>escape\<close> or \<^verbatim>\<open>formatSequelizeMethod\<close>
  spends one unit, and a call with none left has the outcome \<open>Diverges\<close>. A computation
  whose outcome is \<open>Diverges\<close> for every amount of fuel never ends.
\<close>

primrec queryGenerator :: "env \<Rightarrow> nat \<Rightarrow> generator" where
  "queryGenerator env 0 =
     \<lparr>this_escape = (\<lambda>v options'. Diverges),
      this_formatSequelizeMethod = (\<lambda>piece options'. Diverges)\<rparr>"
| "queryGenerator env (Suc fuel) =
     \<lparr>this_escape = escape env (queryGenerator env fuel),
      this_formatSequelizeMethod = formatSequelizeMethod env (queryGenerator env fuel)\<rparr>"

text \<open>
  The two entry points: \<^verbatim>\<open>whereItemsQuery\<close> (the specification's \<^verbatim>\<open>compileWhere\<close>) and the
  public \<^verbatim>\<open>escape\<close> (the specification's \<^verbatim>\<open>escapeValue\<close>). The fuel is for the calls
  that the entry point makes through \<^verbatim>\<open>this\<close>.
\<close>

definition whereItemsQuery :: "env \<Rightarrow> nat \<Rightarrow> jsval \<Rightarrow> options \<Rightarrow> string outcome" where
  "whereItemsQuery env fuel where' options' =
     formatWhereOptions env (queryGenerator env fuel) where' options'"

definition escapeValue :: "env \<Rightarrow> nat \<Rightarrow> jsval \<Rightarrow> options \<Rightarrow> string outcome" where
  "escapeValue env fuel v options' = escape env (queryGenerator env fuel) v options'"

subsection \<open>A sample dialect\<close>

text \<open>
  A small dialect and a small model to run the definitions on examples: identifiers in
  square brackets, numbers in decimal, strings in single quotes, JSON paths joined by
  \<^verbatim>\<open>->\<close>, attribute names without special syntax, every value valid for every type.
\<close>

fun showNat :: "nat \<Rightarrow> string" where
  "showNat n =
     (if n < 10 then [''0123456789'' ! n]
      else showNat (n div 10) @ [''0123456789'' ! (n mod 10)])"

declare showNat.simps [simp del]

definition showInt :: "int \<Rightarrow> string" where
  "showInt i = (if i < 0 then ''-'' @ showNat (nat (- i)) else showNat (nat i))"

definition sampleEnv :: env where
  "sampleEnv =
     \<lparr>dialectName = ''sample'',
      supportsJsonOperations = True,
      jsonPathExtractionQuery2_override = Some (\<lambda>v path. Inr (v @ ''->'' @ join ''->'' path)),
      quoteIdentifier = (\<lambda>s. ''['' @ s @ '']''),
      escapeString = (\<lambda>s. [CHR 0x27] @ s @ [CHR 0x27]),
      quote = (\<lambda>v m options'.
                 case v of
                   Str s \<Rightarrow> Inr (''['' @ s @ '']'')
                 | _ \<Rightarrow> Inl (Error ''quote: association paths are not part of the sample'')),
      normalizeDataType = (\<lambda>t. t),
      noTypeValidation = False,
      attributeTypeToSql = (\<lambda>t. case t of
                                    SqlTypeName n \<Rightarrow> n
                                  | Scalar n \<Rightarrow> n
                                  | JSON \<Rightarrow> ''json''
                                  | TEXT \<Rightarrow> ''text''
                                  | _ \<Rightarrow> ''container''),
      validateDataType = (\<lambda>v t. None),
      bestGuessDataTypeOfVal = (\<lambda>v. case v of
                                        Num n \<Rightarrow> Inr (Scalar ''INTEGER'')
                                      | Str s \<Rightarrow> Inr (Scalar ''STRING'')
                                      | Bool b \<Rightarrow> Inr (Scalar ''BOOLEAN'')
                                      | _ \<Rightarrow> Inl (TypeError ''Could not guess type of value'' None)),
      typeEscape = (\<lambda>t v. case v of
                            Num n \<Rightarrow> Inr (showInt n)
                          | Str s \<Rightarrow> Inr ([CHR 0x27] @ s @ [CHR 0x27])
                          | Bool b \<Rightarrow> Inr (if b then ''true'' else ''false'')
                          | _ \<Rightarrow> Inl (Error ''the sample escapes numbers, strings and booleans'')),
      typeGetBindParamSql = (\<lambda>t v options'.
                               case bindParam options' of
                                 Some bind \<Rightarrow> Inr (bind v)
                               | None \<Rightarrow> Inl (Error ''no bindParam'')),
      parseAttributeSyntax = (\<lambda>a. Inr (Attribute a)),
      injectReplacements = (\<lambda>sql r. Inr sql)\<rparr>"

definition sampleModel :: modelStatic where
  "sampleModel =
     ModelStatic (\<lambda>a. a)
       (\<lambda>a. if a = ''a'' then Some (Scalar ''INTEGER'')
             else if a = ''data'' then Some JSON
             else None)
       (\<lambda>path. None)"

subsection \<open>Notions of the specification\<close>

text \<open>
  Notions that the specification uses and the code does not define: the shape of a value
  (a plain object, that is a mapping; a string; an attribute operand), a fragment that
  contains a token whatever the case of its letters, and a fragment that is fully
  parenthesized (its first character is an opening parenthesis and the parenthesis that
  closes it is its last character).
\<close>

fun is_Obj :: "jsval \<Rightarrow> bool" where
  "is_Obj (Obj es) = True"
| "is_Obj v = False"

fun is_Str :: "jsval \<Rightarrow> bool" where
  "is_Str (Str s) = True"
| "is_Str v = False"

fun is_Attribute :: "jsval \<Rightarrow> bool" where
  "is_Attribute (Method (Attribute a)) = True"
| "is_Attribute v = False"

definition containsIgnoringCase :: "string \<Rightarrow> string \<Rightarrow> bool" where
  "containsIgnoringCase sql token =
     (\<exists>w. sublist w sql \<and> map canonicalize w = map canonicalize token)"

fun closesAtEnd :: "nat \<Rightarrow> string \<Rightarrow> bool" where
  "closesAtEnd depth [] = False"
| "closesAtEnd depth (c # cs) =
     (if c = CHR ''('' then closesAtEnd (Suc depth) cs
      else if c = CHR '')'' then
        (case depth of
           0 \<Rightarrow> False
         | Suc 0 \<Rightarrow> cs = []
         | Suc d \<Rightarrow> closesAtEnd d cs)
      else closesAtEnd depth cs)"

definition fullyParenthesized :: "string \<Rightarrow> bool" where
  "fullyParenthesized sql =
     (case sql of [] \<Rightarrow> False | c # cs \<Rightarrow> c = CHR ''('' \<and> closesAtEnd (Suc 0) cs)"

text \<open>
  Two abbreviations for the statements below: the column name that \<^verbatim>\<open>formatAttribute\<close>
  quotes for an attribute (the attribute itself without a model), and the \<^verbatim>\<open>catch\<close> clause
  of \<^verbatim>\<open>formatWhereOptions\<close>.
\<close>

definition columnOf :: "options \<Rightarrow> string \<Rightarrow> string" where
  "columnOf options' a = (case model options' of None \<Rightarrow> a | Some m \<Rightarrow> getColumnNameLoose m a)"

fun rethrown :: "string outcome \<Rightarrow> string outcome" where
  "rethrown (Throws e) = Throws (TypeError ''Invalid value received for the where option.'' (Some e))"
| "rethrown r = r"

section \<open>Properties\<close>

subsection \<open>The sample dialect, evaluated\<close>

lemma sampleEnv_fields [simp]:
  "dialectName sampleEnv = ''sample''"
  "supportsJsonOperations sampleEnv = True"
  "jsonPathExtractionQuery2_override sampleEnv = Some (\<lambda>v path. Inr (v @ ''->'' @ join ''->'' path))"
  "quoteIdentifier sampleEnv s = ''['' @ s @ '']''"
  "escapeString sampleEnv s = [CHR 0x27] @ s @ [CHR 0x27]"
  "quote sampleEnv (Str s) m options' = Inr (''['' @ s @ '']'')"
  "normalizeDataType sampleEnv t = t"
  "noTypeValidation sampleEnv = False"
  "validateDataType sampleEnv v t = None"
  "bestGuessDataTypeOfVal sampleEnv (Num n) = Inr (Scalar ''INTEGER'')"
  "typeEscape sampleEnv t (Num n) = Inr (showInt n)"
  "parseAttributeSyntax sampleEnv a = Inr (Attribute a)"
  by (simp_all add: sampleEnv_def)

lemma EMPTY_OBJECT_fields [simp]:
  "bindParam EMPTY_OBJECT = None"
  "replacements EMPTY_OBJECT = None"
  "model EMPTY_OBJECT = None"
  "type EMPTY_OBJECT = None"
  by (simp_all add: EMPTY_OBJECT_def)

lemma sampleModel_fields [simp]:
  "getColumnNameLoose sampleModel a = a"
  "attributeType sampleModel ''a'' = Some (Scalar ''INTEGER'')"
  "attributeType sampleModel ''data'' = Some JSON"
  by (simp_all add: sampleModel_def)

lemma showInt_digits [simp]:
  "showInt 1 = ''1''" "showInt 2 = ''2''" "showInt 3 = ''3''" "showInt 4 = ''4''"
  by (simp_all add: showInt_def showNat.simps)

subsection \<open>The joining rule\<close>

lemma matches_at_prefix: "matches_at p s \<longleftrightarrow> prefix p (map canonicalize s)"
  by (induction p s rule: matches_at.induct) auto

lemma regex_and_or_test_sublist:
  "regex_and_or_test s \<longleftrightarrow>
     sublist '' AND '' (map canonicalize s) \<or> sublist '' OR '' (map canonicalize s)"
proof (induction s)
  case Nil
  then show ?case by simp
next
  case (Cons c cs)
  show ?case
    unfolding regex_and_or_test.simps Cons.IH matches_at_prefix list.map sublist_Cons_right
    by blast
qed

lemma containsIgnoringCase_sublist:
  "containsIgnoringCase sql token \<longleftrightarrow> sublist (map canonicalize token) (map canonicalize sql)"
proof
  assume "containsIgnoringCase sql token"
  then obtain w where "sublist w sql" "map canonicalize w = map canonicalize token"
    by (auto simp: containsIgnoringCase_def)
  then show "sublist (map canonicalize token) (map canonicalize sql)"
    using map_mono_sublist [of w sql canonicalize] by simp
next
  assume "sublist (map canonicalize token) (map canonicalize sql)"
  then show "containsIgnoringCase sql token"
    unfolding containsIgnoringCase_def by (metis sublist_map_rightE)
qed

lemma canonicalize_AND: "map canonicalize '' AND '' = '' AND ''"
  by (simp add: canonicalize_def)

lemma canonicalize_OR: "map canonicalize '' OR '' = '' OR ''"
  by (simp add: canonicalize_def)

lemma regex_and_or_test_contains:
  "regex_and_or_test s \<longleftrightarrow> containsIgnoringCase s '' AND '' \<or> containsIgnoringCase s '' OR ''"
  by (simp only: regex_and_or_test_sublist containsIgnoringCase_sublist canonicalize_AND canonicalize_OR)

text \<open>
  Claim C7. The joining rule, for every list of fragments and every connective: the empty
  fragments are dropped; no fragment left gives the empty string; one fragment left is
  returned as it is; with two or more, each fragment that contains \<^verbatim>\<open> AND \<close> or \<^verbatim>\<open> OR \<close>,
  whatever the case of the letters, is put in parentheses, and the fragments are joined
  with the connective.
\<close>

theorem joinWithLogicalOperator_rule:
  "joinWithLogicalOperator sqlArray operator =
     (let fragments = filter (\<lambda>sql. sql \<noteq> []) sqlArray;
          connective = (if operator = Op_and then '' AND '' else '' OR '')
      in case fragments of
           [] \<Rightarrow> []
         | [sql] \<Rightarrow> sql
         | _ \<Rightarrow> join connective
                  (map (\<lambda>sql. if containsIgnoringCase sql '' AND '' \<or> containsIgnoringCase sql '' OR ''
                               then ''('' @ sql @ '')'' else sql)
                       fragments))"
proof (cases "filter (\<lambda>sql. sql \<noteq> []) sqlArray")
  case Nil
  then show ?thesis
    by (simp add: joinWithLogicalOperator_def)
next
  case (Cons x xs)
  then show ?thesis
    by (cases xs) (simp_all add: joinWithLogicalOperator_def regex_and_or_test_contains Let_def)
qed

text \<open>The rule at three lists: a lower-case \<^verbatim>\<open>or\<close> is parenthesized too.\<close>

theorem joinWithLogicalOperator_rule_witness:
  "joinWithLogicalOperator [''a = 1'', [], ''b = 2 or c = 3''] Op_and = ''a = 1 AND (b = 2 or c = 3)''
   \<and> joinWithLogicalOperator [[], ''a = 1'', []] Op_or = ''a = 1''
   \<and> joinWithLogicalOperator [[], []] Op_or = []"
  using joinWithLogicalOperator_rule [of "[''a = 1'', [], ''b = 2 or c = 3'']" Op_and]
        joinWithLogicalOperator_rule [of "[[], ''a = 1'', []]" Op_or]
        joinWithLogicalOperator_rule [of "[[], []]" Op_or]
  by (simp add: containsIgnoringCase_sublist canonicalize_def sublist_Cons_right)

subsection \<open>JSON paths and single keys\<close>

lemma wrapJsonPath_JsonPath:
  "wrapJsonPath (Method (JsonPath v path)) jsonPath = Method (JsonPath v (path @ jsonPath))"
  by (cases jsonPath) simp_all

lemma wrapJsonPath_append:
  "wrapJsonPath (wrapJsonPath operand p) q = wrapJsonPath operand (p @ q)"
proof (cases p)
  case Nil
  then show ?thesis by simp
next
  case (Cons x xs)
  then show ?thesis
    by (cases "(operand, p)" rule: wrapJsonPath.cases) (simp_all add: wrapJsonPath_JsonPath)
qed

lemma joinWithLogicalOperator_single: "joinWithLogicalOperator [sql] operator = sql"
  by (simp add: joinWithLogicalOperator_def)

lemma obind_Returns_pair: "obind m (\<lambda>(a, b). Returns (a, b)) = m"
  by (cases m) auto

lemma obind_Returns: "obind m Returns = m"
  by (cases m) auto

lemma nested_leaf:
  "\<not> is_Obj v \<Longrightarrow>
     handleRecursiveNotOrAndNestedPathRecursive left v allow handlePart operator path s =
       handlePart (wrapJsonPath left path) None v s"
  by (cases v) (simp_all add: handleRecursiveNotOrAndNestedPathRecursive.simps)

lemma nested_string_key:
  "handleRecursiveNotOrAndNestedPathRecursive left (Obj [(KStr k, v)]) True handlePart operator path s =
     handleRecursiveNotOrAndNestedPathRecursive left v True handlePart operator (path @ [k]) s"
proof -
  let ?r = "handleRecursiveNotOrAndNestedPathRecursive left v True handlePart operator (path @ [k]) s"
  have "handleRecursiveNotOrAndNestedPathRecursive left (Obj [(KStr k, v)]) True handlePart operator path s =
          obind ?r (\<lambda>(sql, s'). Returns (joinWithLogicalOperator [sql] operator, s'))"
    by (subst handleRecursiveNotOrAndNestedPathRecursive.simps)
       (cases ?r; simp add: objectKeys_def getOperators_def split: prod.splits)
  then show ?thesis
    by (simp add: joinWithLogicalOperator_single obind_Returns_pair obind_Returns)
qed

subsection \<open>The escaper\<close>

text \<open>
  Claim C9. For every call of the public \<^verbatim>\<open>escape\<close>: the value \<^verbatim>\<open>undefined\<close> throws; the
  value \<^verbatim>\<open>null\<close> gives the text \<^verbatim>\<open>NULL\<close> when there is no \<^verbatim>\<open>bindParam\<close>, and what
  \<^verbatim>\<open>bindParam(null)\<close> returns when there is one.
\<close>

theorem escape_undefined_null:
  "escapeValue env fuel Undefined options' = Throws (TypeError ''undefined cannot be escaped'' None)
   \<and> (bindParam options' = None \<longrightarrow> escapeValue env fuel Null options' = Returns ''NULL'')
   \<and> (bindParam options' = Some bind \<longrightarrow> escapeValue env fuel Null options' = Returns (bind Null))"
  by (simp add: escapeValue_def escape_def)

text \<open>The three cases in the sample dialect, with and without a bind callback.\<close>

theorem escape_undefined_null_witness:
  "escapeValue sampleEnv 0 Undefined EMPTY_OBJECT = Throws (TypeError ''undefined cannot be escaped'' None)
   \<and> bindParam EMPTY_OBJECT = None
   \<and> escapeValue sampleEnv 0 Null EMPTY_OBJECT = Returns ''NULL''
   \<and> bindParam (EMPTY_OBJECT\<lparr>bindParam := Some (\<lambda>v. ''$1'')\<rparr>) = Some (\<lambda>v. ''$1'')
   \<and> escapeValue sampleEnv 0 Null (EMPTY_OBJECT\<lparr>bindParam := Some (\<lambda>v. ''$1'')\<rparr>) = Returns ''$1''"
  using escape_undefined_null [of sampleEnv 0 EMPTY_OBJECT "\<lambda>v. ''$1''"]
        escape_undefined_null [of sampleEnv 0 "EMPTY_OBJECT\<lparr>bindParam := Some (\<lambda>v. ''$1'')\<rparr>" "\<lambda>v. ''$1''"]
  by simp

text \<open>
  Claim C10 as stated fails: the object \<^verbatim>\<open>{[Op.col]: '*'}\<close> is rendered as a bare star,
  where quoting the identifier gives \<^verbatim>\<open>[*]\<close> in the sample dialect.
\<close>

theorem escape_col_star_counterexample:
  "map_of [(KOp Op_col, Str ''*'')] (KOp Op_col) = Some (Str ''*'')
   \<and> escapeValue sampleEnv (Suc 0) (Obj [(KOp Op_col, Str ''*'')]) EMPTY_OBJECT = Returns ''*''
   \<and> lift (quote sampleEnv (Str ''*'') (model EMPTY_OBJECT) EMPTY_OBJECT) = Returns ''[*]''"
  by (simp add: escapeValue_def escape_def formatSequelizeMethod_def formatCol_def startsWith_def)

text \<open>
  Claim C10, amended. A plain object with the key \<^verbatim>\<open>Op.col\<close> that holds a string is escaped
  as the column of that string, whatever its other keys and whatever type or bind callback
  the options carry: a string that starts with a star gives a bare star, every other string
  is quoted by \<^verbatim>\<open>quote\<close>.
\<close>

theorem escape_col_object:
  "map_of es (KOp Op_col) = Some (Str s) \<Longrightarrow>
     escapeValue env (Suc fuel) (Obj es) options' =
       (if startsWith s ''*'' then Returns ''*''
        else lift (quote env (Str s) (model options') options'))"
  by (simp add: escapeValue_def escape_def formatSequelizeMethod_def formatCol_def)

text \<open>An object with a further key, escaped with a declared type.\<close>

theorem escape_col_object_witness:
  "map_of [(KStr ''x'', Null), (KOp Op_col, Str ''name'')] (KOp Op_col) = Some (Str ''name'')
   \<and> escapeValue sampleEnv (Suc 0) (Obj [(KStr ''x'', Null), (KOp Op_col, Str ''name'')])
        (EMPTY_OBJECT\<lparr>type := Some TEXT\<rparr>) = Returns ''[name]''"
  using escape_col_object [of "[(KStr ''x'', Null), (KOp Op_col, Str ''name'')]" "''name''"
          sampleEnv 0 "EMPTY_OBJECT\<lparr>type := Some TEXT\<rparr>"]
  by (simp add: startsWith_def)

subsection \<open>Malformed input\<close>

text \<open>
  Claim C4. A string at the top level throws the \<^verbatim>\<open>TypeError\<close> of the removed raw query
  support, and every other top-level value that is not an array, a plain object or a
  \<^verbatim>\<open>SequelizeMethod\<close> throws a \<^verbatim>\<open>TypeError\<close> too: no such value compiles to SQL.
\<close>

theorem plain_scalar_where_rejected:
  "whereItemsQuery env fuel (Str s) options' =
     Throws (TypeError
       ''Support for { where: raw query } has been removed. Use { where: literal(raw query) } instead''
       None)
   \<and> (\<not> is_Arr w \<and> \<not> is_Obj w \<and> \<not> is_SequelizeMethod w \<longrightarrow>
        (\<exists>message cause. whereItemsQuery env fuel w options' = Throws (TypeError message cause)))"
  by (cases w)
     (simp_all add: whereItemsQuery_def formatWhereOptions_def
        handleRecursiveNotOrAndWithImplicitAndArray.simps)

text \<open>A string and a number at the top level.\<close>

theorem plain_scalar_where_rejected_witness:
  "whereItemsQuery sampleEnv 3 (Str ''a = 1'') EMPTY_OBJECT =
     Throws (TypeError
       ''Support for { where: raw query } has been removed. Use { where: literal(raw query) } instead''
       None)
   \<and> \<not> is_Arr (Num 7) \<and> \<not> is_Obj (Num 7) \<and> \<not> is_SequelizeMethod (Num 7)
   \<and> (\<exists>message cause. whereItemsQuery sampleEnv 3 (Num 7) EMPTY_OBJECT = Throws (TypeError message cause))"
  using plain_scalar_where_rejected [of sampleEnv 3 "''a = 1''" EMPTY_OBJECT "Num 7"]
  by simp

subsection \<open>Negation\<close>

text \<open>
  Where \<^verbatim>\<open>wrapWithNot\<close> agrees with the specification: the empty fragment, a fully
  parenthesized fragment, and the filter \<^verbatim>\<open>{[Op.not]: {a: 1}}\<close>.
\<close>

lemma closesAtEnd_last: "closesAtEnd depth cs \<Longrightarrow> cs \<noteq> [] \<and> last cs = CHR '')''"
proof (induction cs arbitrary: depth)
  case Nil
  then show ?case by simp
next
  case (Cons c cs)
  show ?case
  proof (cases "c = CHR ''(''")
    case True
    with Cons.prems have "closesAtEnd (Suc depth) cs" by simp
    then show ?thesis using Cons.IH by auto
  next
    case False
    show ?thesis
    proof (cases "c = CHR '')''")
      case True
      with Cons.prems Cons.IH show ?thesis
        by (auto split: nat.splits)
    next
      case False
      with \<open>c \<noteq> CHR ''(''\<close> Cons.prems have "closesAtEnd depth cs" by simp
      then show ?thesis using Cons.IH by auto
    qed
  qed
qed

lemma endsWith_last: "endsWith s [c] \<longleftrightarrow> s \<noteq> [] \<and> last s = c"
proof (cases s rule: rev_cases)
  case Nil
  then show ?thesis by (simp add: endsWith_def)
next
  case (snoc ys y)
  then show ?thesis by (auto simp add: endsWith_def)
qed

lemma wrapWithNot_fullyParenthesized:
  "fullyParenthesized sql \<Longrightarrow> wrapWithNot sql = ''NOT '' @ sql"
proof -
  assume "fullyParenthesized sql"
  then obtain cs where sql: "sql = CHR ''('' # cs" and "closesAtEnd (Suc 0) cs"
    by (auto simp add: fullyParenthesized_def split: list.splits)
  then have "cs \<noteq> [] \<and> last cs = CHR '')''"
    using closesAtEnd_last by blast
  then have "endsWith sql '')''"
    using sql by (simp add: endsWith_last)
  then show ?thesis
    using sql by (simp add: wrapWithNot_def startsWith_def)
qed

lemma wrapWithNot_empty: "wrapWithNot [] = []"
  by (simp add: wrapWithNot_def)

lemma not_of_comparison: "whereItemsQuery sampleEnv (Suc (Suc 0)) (Obj [(KOp Op_not, Obj [(KStr ''a'', Num 1)])])
        EMPTY_OBJECT = Returns ''NOT ([a] = 1)''"
  by (simp add: wrapWithNot_def startsWith_def endsWith_def
        whereItemsQuery_def formatWhereOptions_def
        handleRecursiveNotOrAndWithImplicitAndArray.simps getComplexKeys_def getOperators_def
        objectKeys_def formatPojoWhere_def
        handleRecursiveNotOrAndNestedPathRecursive.simps
        formatPojoWhere_handlePart_def inferOperator_def nullOperator_def
        formatBinaryOperation_def formatOpAnyAll_def
        escape_def formatSequelizeMethod_def formatAttribute_def validate_def wrapAmbiguousWhere_def
        joinWithLogicalOperator_def operatorText_def canonicalize_def)

text \<open>
  Claim C6 at the filter \<^verbatim>\<open>{[Op.not]: {[Op.or]: [{a: 1, b: 2}, {c: 3, d: 4}]}}\<close>. The inner
  fragment is a disjunction of two parenthesized conjunctions. It is not fully parenthesized,
  but it starts with an opening and ends with a closing parenthesis, so \<^verbatim>\<open>wrapWithNot\<close> only
  puts \<^verbatim>\<open>NOT\<close> in front of it, and the negation covers the first conjunction alone.
\<close>

theorem wrapWithNot_disjunction:
  "\<not> fullyParenthesized ''([a] = 1 AND [b] = 2) OR ([c] = 3 AND [d] = 4)''
   \<and> wrapWithNot ''([a] = 1 AND [b] = 2) OR ([c] = 3 AND [d] = 4)'' =
       ''NOT ([a] = 1 AND [b] = 2) OR ([c] = 3 AND [d] = 4)''
   \<and> whereItemsQuery sampleEnv (Suc (Suc 0))
        (Obj [(KOp Op_not, Obj [(KOp Op_or,
           Arr [Obj [(KStr ''a'', Num 1), (KStr ''b'', Num 2)],
                Obj [(KStr ''c'', Num 3), (KStr ''d'', Num 4)]])])])
        EMPTY_OBJECT =
       Returns ''NOT ([a] = 1 AND [b] = 2) OR ([c] = 3 AND [d] = 4)''"
  by (simp add: fullyParenthesized_def wrapWithNot_def startsWith_def endsWith_def
        whereItemsQuery_def formatWhereOptions_def
        handleRecursiveNotOrAndWithImplicitAndArray.simps getComplexKeys_def getOperators_def
        objectKeys_def formatPojoWhere_def
        handleRecursiveNotOrAndNestedPathRecursive.simps
        formatPojoWhere_handlePart_def inferOperator_def nullOperator_def
        formatBinaryOperation_def formatOpAnyAll_def
        escape_def formatSequelizeMethod_def formatAttribute_def validate_def wrapAmbiguousWhere_def
        joinWithLogicalOperator_def operatorText_def canonicalize_def)

subsection \<open>Leaf comparisons\<close>

lemma escape_attribute:
  "parseAttributeSyntax env a = Inr (Attribute a) \<Longrightarrow>
     this_escape (queryGenerator env (Suc (Suc fuel))) (Method (Attribute a)) options' =
       Returns (quoteIdentifier env (columnOf options' a))"
  by (simp add: escape_def formatSequelizeMethod_def formatAttribute_def columnOf_def
           split: option.splits)

lemma escape_attribute_type [simp]:
  "columnOf (options'\<lparr>type := t\<rparr>) a = columnOf options' a"
  by (simp add: columnOf_def)

lemma escape_null:
  "bindParam options' = None \<Longrightarrow>
     this_escape (queryGenerator env (Suc fuel)) Null options' = Returns ''NULL''"
  by (simp add: escape_def)

lemma first_level_attribute:
  "whereItemsQuery env fuel (Obj [(KStr a, v)]) options' =
     rethrown (formatPojoWhere env (queryGenerator env fuel) (Method (Attribute a)) v options')"
proof -
  let ?r = "formatPojoWhere env (queryGenerator env fuel) (Method (Attribute a)) v options'"
  show ?thesis
    by (cases ?r)
       (simp_all add: whereItemsQuery_def formatWhereOptions_def
          handleRecursiveNotOrAndWithImplicitAndArray.simps getComplexKeys_def getOperators_def
          objectKeys_def joinWithLogicalOperator_single)
qed

lemma nested_operator_key:
  "k \<noteq> Op_not \<Longrightarrow> k \<noteq> Op_and \<Longrightarrow> k \<noteq> Op_or \<Longrightarrow>
     handleRecursiveNotOrAndNestedPathRecursive left (Obj [(KOp k, v)]) allow handlePart operator path s =
       handlePart (wrapJsonPath left path) (Some k) v s"
proof -
  let ?r = "handlePart (wrapJsonPath left path) (Some k) v s"
  assume "k \<noteq> Op_not" "k \<noteq> Op_and" "k \<noteq> Op_or"
  then have "handleRecursiveNotOrAndNestedPathRecursive left (Obj [(KOp k, v)]) allow handlePart operator path s =
          obind ?r (\<lambda>(sql, s'). Returns (joinWithLogicalOperator [sql] operator, s'))"
    by (subst handleRecursiveNotOrAndNestedPathRecursive.simps)
       (cases ?r; simp add: objectKeys_def getOperators_def split: prod.splits)
  then show ?thesis
    by (simp add: joinWithLogicalOperator_single obind_Returns_pair obind_Returns)
qed

lemma formatPojoWhere_attribute:
  "parseAttributeSyntax env a = Inr (Attribute a) \<Longrightarrow>
     formatPojoWhere env qg (Method (Attribute a)) v options' =
       obind (handleRecursiveNotOrAndNestedPathRecursive (Method (Attribute a)) v
                (getOperandType env (Method (Attribute a)) (model options') = None
                 \<or> getOperandType env (Method (Attribute a)) (model options') = Some JSON)
                (formatPojoWhere_handlePart env qg options') Op_and []
                (getOperandType env (Method (Attribute a)) (model options')))
         (\<lambda>(sql, t). Returns sql)"
  by (simp add: formatPojoWhere_def Let_def)

lemma getOperandType_plain:
  "\<not> is_SequelizeMethod v \<Longrightarrow> getOperandType env v m = None"
  by (cases m; cases v) simp_all

lemma handlePart_null_is:
  "formatPojoWhere_handlePart env qg options' left None Null ldt =
     formatPojoWhere_handlePart env qg options' left (Some Op_is) Null ldt"
  "formatPojoWhere_handlePart env qg options' left (Some Op_eq) Null ldt =
     formatPojoWhere_handlePart env qg options' left (Some Op_is) Null ldt"
  "formatPojoWhere_handlePart env qg options' left (Some Op_ne) Null ldt =
     formatPojoWhere_handlePart env qg options' left (Some Op_isNot) Null ldt"
  by (simp_all add: formatPojoWhere_handlePart_def inferOperator_def nullOperator_def)

lemma handlePart_is_null_attribute:
  assumes "parseAttributeSyntax env a = Inr (Attribute a)" "bindParam options' = None"
    and "operator = Op_is \<or> operator = Op_isNot"
  shows "formatPojoWhere_handlePart env (queryGenerator env (Suc (Suc fuel))) options'
           (Method (Attribute a)) (Some operator) Null ldt =
         Returns (quoteIdentifier env (columnOf options' a) @ '' '' @ operatorText operator @ '' NULL'', ldt)"
  using assms(3)
  by (auto simp add: formatPojoWhere_handlePart_def inferOperator_def nullOperator_def
        op_is_def op_isNot_def formatBinaryOperation_def formatOpAnyAll_def wrapAmbiguousWhere_def
        escape_attribute [OF assms(1)] escape_null assms(2) operatorText_def
      simp del: queryGenerator.simps)

text \<open>
  Claim C3. A leaf comparison whose right operand is \<^verbatim>\<open>null\<close> is, with no operator and with
  the operator \<^verbatim>\<open>=\<close>, the comparison with \<^verbatim>\<open>IS\<close>, and with the operator \<^verbatim>\<open>!=\<close> the comparison
  with \<^verbatim>\<open>IS NOT\<close>. So, for an attribute name without special syntax and without a bind
  callback, \<^verbatim>\<open>{a: null}\<close> compiles to the quoted column followed by \<^verbatim>\<open>IS NULL\<close>, and
  \<^verbatim>\<open>{a: {[Op.ne]: null}}\<close> to the quoted column followed by \<^verbatim>\<open>IS NOT NULL\<close>.
\<close>

theorem null_comparison:
  "formatPojoWhere_handlePart env qg options' left None Null ldt =
     formatPojoWhere_handlePart env qg options' left (Some Op_is) Null ldt
   \<and> formatPojoWhere_handlePart env qg options' left (Some Op_eq) Null ldt =
     formatPojoWhere_handlePart env qg options' left (Some Op_is) Null ldt
   \<and> formatPojoWhere_handlePart env qg options' left (Some Op_ne) Null ldt =
     formatPojoWhere_handlePart env qg options' left (Some Op_isNot) Null ldt
   \<and> (parseAttributeSyntax env a = Inr (Attribute a) \<and> bindParam options' = None \<longrightarrow>
        whereItemsQuery env (Suc (Suc fuel)) (Obj [(KStr a, Null)]) options' =
          Returns (quoteIdentifier env (columnOf options' a) @ '' IS NULL'')
        \<and> whereItemsQuery env (Suc (Suc fuel)) (Obj [(KStr a, Obj [(KOp Op_eq, Null)])]) options' =
          Returns (quoteIdentifier env (columnOf options' a) @ '' IS NULL'')
        \<and> whereItemsQuery env (Suc (Suc fuel)) (Obj [(KStr a, Obj [(KOp Op_ne, Null)])]) options' =
          Returns (quoteIdentifier env (columnOf options' a) @ '' IS NOT NULL''))"
  by (simp add: handlePart_null_is first_level_attribute formatPojoWhere_attribute
        nested_leaf nested_operator_key handlePart_is_null_attribute operatorText_def
      del: queryGenerator.simps)

text \<open>The three filters in the sample dialect.\<close>

theorem null_comparison_witness:
  "parseAttributeSyntax sampleEnv ''a'' = Inr (Attribute ''a'') \<and> bindParam EMPTY_OBJECT = None
   \<and> whereItemsQuery sampleEnv (Suc (Suc 0)) (Obj [(KStr ''a'', Null)]) EMPTY_OBJECT =
       Returns ''[a] IS NULL''
   \<and> whereItemsQuery sampleEnv (Suc (Suc 0)) (Obj [(KStr ''a'', Obj [(KOp Op_eq, Null)])]) EMPTY_OBJECT =
       Returns ''[a] IS NULL''
   \<and> whereItemsQuery sampleEnv (Suc (Suc 0)) (Obj [(KStr ''a'', Obj [(KOp Op_ne, Null)])]) EMPTY_OBJECT =
       Returns ''[a] IS NOT NULL''"
  using null_comparison [of sampleEnv _ EMPTY_OBJECT _ _ "''a''" 0]
  by (simp add: columnOf_def)


lemma handlePart_inferred:
  "is_Arr right \<and> \<not> is_ARRAY ldt \<Longrightarrow>
     formatPojoWhere_handlePart env qg options' left None right ldt =
       formatPojoWhere_handlePart env qg options' left (Some Op_in) right ldt"
  "right = Null \<Longrightarrow>
     formatPojoWhere_handlePart env qg options' left None right ldt =
       formatPojoWhere_handlePart env qg options' left (Some Op_is) right ldt"
  "\<not> (is_Arr right \<and> \<not> is_ARRAY ldt) \<Longrightarrow> right \<noteq> Null \<Longrightarrow>
     formatPojoWhere_handlePart env qg options' left None right ldt =
       formatPojoWhere_handlePart env qg options' left (Some Op_eq) right ldt"
  by (auto simp add: formatPojoWhere_handlePart_def inferOperator_def nullOperator_def jsonType_def)

lemma escape_number:
  "this_escape (queryGenerator env (Suc fuel)) (Num n) options' = escapeValue env 0 (Num n) options'"
  by (simp add: escapeValue_def escape_def)

lemma handlePart_in_numbers_attribute:
  assumes "parseAttributeSyntax env a = Inr (Attribute a)"
    and "escapeValue env 0 (Num 1) (options'\<lparr>type := ldt\<rparr>) = Returns e1"
    and "escapeValue env 0 (Num 2) (options'\<lparr>type := ldt\<rparr>) = Returns e2"
    and "escapeValue env 0 (Num 3) (options'\<lparr>type := ldt\<rparr>) = Returns e3"
  shows "formatPojoWhere_handlePart env (queryGenerator env (Suc (Suc fuel))) options'
           (Method (Attribute a)) (Some Op_in) (Arr [Num 1, Num 2, Num 3]) ldt =
         Returns (quoteIdentifier env (columnOf options' a)
                  @ '' IN ('' @ e1 @ '', '' @ e2 @ '', '' @ e3 @ '')'', ldt)"
  by (simp add: formatPojoWhere_handlePart_def inferOperator_def nullOperator_def
        op_in_def escapeList_def escape_number escape_attribute [OF assms(1)] assms(2-4)
        operatorText_def getOperandType_plain Let_def
      del: queryGenerator.simps)

text \<open>
  Claim C8. A leaf comparison with no operator is the comparison with \<^verbatim>\<open>IN\<close> when the right
  operand is an array and the declared type of the left operand is not an array type, with
  \<^verbatim>\<open>IS\<close> when the right operand is \<^verbatim>\<open>null\<close>, and with \<^verbatim>\<open>=\<close> otherwise. So \<^verbatim>\<open>{a: [1, 2, 3]}\<close>,
  for an attribute whose declared type \<open>declared\<close> is not an array type, compiles to the
  quoted column followed by \<^verbatim>\<open>IN\<close> and the list of the three escaped numbers.
\<close>

theorem inferred_operator:
  "(is_Arr right \<and> \<not> is_ARRAY ldt \<longrightarrow>
      inferOperator ldt None right = Op_in
      \<and> formatPojoWhere_handlePart env qg options' left None right ldt =
          formatPojoWhere_handlePart env qg options' left (Some Op_in) right ldt)
   \<and> (right = Null \<longrightarrow>
      inferOperator ldt None right = Op_is
      \<and> formatPojoWhere_handlePart env qg options' left None right ldt =
          formatPojoWhere_handlePart env qg options' left (Some Op_is) right ldt)
   \<and> (\<not> (is_Arr right \<and> \<not> is_ARRAY ldt) \<and> right \<noteq> Null \<longrightarrow>
      inferOperator ldt None right = Op_eq
      \<and> formatPojoWhere_handlePart env qg options' left None right ldt =
          formatPojoWhere_handlePart env qg options' left (Some Op_eq) right ldt)
   \<and> (parseAttributeSyntax env a = Inr (Attribute a)
        \<and> declared = getOperandType env (Method (Attribute a)) (model options')
        \<and> \<not> is_ARRAY declared
        \<and> escapeValue env 0 (Num 1) (options'\<lparr>type := declared\<rparr>) = Returns e1
        \<and> escapeValue env 0 (Num 2) (options'\<lparr>type := declared\<rparr>) = Returns e2
        \<and> escapeValue env 0 (Num 3) (options'\<lparr>type := declared\<rparr>) = Returns e3 \<longrightarrow>
      whereItemsQuery env (Suc (Suc fuel)) (Obj [(KStr a, Arr [Num 1, Num 2, Num 3])]) options' =
        Returns (quoteIdentifier env (columnOf options' a)
                 @ '' IN ('' @ e1 @ '', '' @ e2 @ '', '' @ e3 @ '')''))"
proof -
  have infer: "is_Arr right \<and> \<not> is_ARRAY ldt \<Longrightarrow> inferOperator ldt None right = Op_in"
    "right = Null \<Longrightarrow> inferOperator ldt None right = Op_is"
    "\<not> (is_Arr right \<and> \<not> is_ARRAY ldt) \<Longrightarrow> right \<noteq> Null \<Longrightarrow> inferOperator ldt None right = Op_eq"
    by (auto simp: inferOperator_def)
  have whole: "whereItemsQuery env (Suc (Suc fuel)) (Obj [(KStr a, Arr [Num 1, Num 2, Num 3])]) options' =
        Returns (quoteIdentifier env (columnOf options' a)
                 @ '' IN ('' @ e1 @ '', '' @ e2 @ '', '' @ e3 @ '')'')"
    if "parseAttributeSyntax env a = Inr (Attribute a)"
      and "declared = getOperandType env (Method (Attribute a)) (model options')"
      and "\<not> is_ARRAY declared"
      and "escapeValue env 0 (Num 1) (options'\<lparr>type := declared\<rparr>) = Returns e1"
      and "escapeValue env 0 (Num 2) (options'\<lparr>type := declared\<rparr>) = Returns e2"
      and "escapeValue env 0 (Num 3) (options'\<lparr>type := declared\<rparr>) = Returns e3"
    using that
    by (simp add: first_level_attribute formatPojoWhere_attribute nested_leaf
          handlePart_inferred(1) handlePart_in_numbers_attribute
        del: queryGenerator.simps)
  have leaf: "is_Arr right \<and> \<not> is_ARRAY ldt \<Longrightarrow>
      formatPojoWhere_handlePart env qg options' left None right ldt =
        formatPojoWhere_handlePart env qg options' left (Some Op_in) right ldt"
    "right = Null \<Longrightarrow>
      formatPojoWhere_handlePart env qg options' left None right ldt =
        formatPojoWhere_handlePart env qg options' left (Some Op_is) right ldt"
    "\<not> (is_Arr right \<and> \<not> is_ARRAY ldt) \<Longrightarrow> right \<noteq> Null \<Longrightarrow>
      formatPojoWhere_handlePart env qg options' left None right ldt =
        formatPojoWhere_handlePart env qg options' left (Some Op_eq) right ldt"
    by (rule handlePart_inferred; assumption)+
  show ?thesis
    using infer leaf whole by blast
qed

text \<open>
  The three cases, an array under an attribute of an array type, and the example on the
  sample model, where \<^verbatim>\<open>a\<close> is an integer.
\<close>

theorem inferred_operator_witness:
  "is_Arr (Arr [Num 1, Num 2, Num 3]) \<and> \<not> is_ARRAY (Some (Scalar ''INTEGER''))
   \<and> inferOperator (Some (Scalar ''INTEGER'')) None (Arr [Num 1, Num 2, Num 3]) = Op_in
   \<and> inferOperator (Some (Scalar ''INTEGER'')) None Null = Op_is
   \<and> \<not> (is_Arr (Num 1) \<and> \<not> is_ARRAY (Some (Scalar ''INTEGER''))) \<and> Num 1 \<noteq> Null
   \<and> inferOperator (Some (Scalar ''INTEGER'')) None (Num 1) = Op_eq
   \<and> \<not> (is_Arr (Arr [Num 1]) \<and> \<not> is_ARRAY (Some (ARRAY (Scalar ''INTEGER'')))) \<and> Arr [Num 1] \<noteq> Null
   \<and> inferOperator (Some (ARRAY (Scalar ''INTEGER''))) None (Arr [Num 1]) = Op_eq
   \<and> parseAttributeSyntax sampleEnv ''a'' = Inr (Attribute ''a'')
   \<and> getOperandType sampleEnv (Method (Attribute ''a'')) (Some sampleModel) = Some (Scalar ''INTEGER'')
   \<and> escapeValue sampleEnv 0 (Num 1) (EMPTY_OBJECT\<lparr>model := Some sampleModel, type := Some (Scalar ''INTEGER'')\<rparr>) = Returns ''1''
   \<and> escapeValue sampleEnv 0 (Num 2) (EMPTY_OBJECT\<lparr>model := Some sampleModel, type := Some (Scalar ''INTEGER'')\<rparr>) = Returns ''2''
   \<and> escapeValue sampleEnv 0 (Num 3) (EMPTY_OBJECT\<lparr>model := Some sampleModel, type := Some (Scalar ''INTEGER'')\<rparr>) = Returns ''3''
   \<and> whereItemsQuery sampleEnv (Suc (Suc 0)) (Obj [(KStr ''a'', Arr [Num 1, Num 2, Num 3])])
        (EMPTY_OBJECT\<lparr>model := Some sampleModel\<rparr>) = Returns ''[a] IN (1, 2, 3)''"
  using inferred_operator [of "Arr [Num 1, Num 2, Num 3]" "Some (Scalar ''INTEGER'')" sampleEnv _
          "EMPTY_OBJECT\<lparr>model := Some sampleModel\<rparr>" _ "''a''" "Some (Scalar ''INTEGER'')"
          "''1''" "''2''" "''3''" 0]
        inferred_operator [of Null "Some (Scalar ''INTEGER'')"]
        inferred_operator [of "Num 1" "Some (Scalar ''INTEGER'')"]
        inferred_operator [of "Arr [Num 1]" "Some (ARRAY (Scalar ''INTEGER''))"]
  by (simp add: columnOf_def escapeValue_def escape_def validate_def)

lemma op_in_empty:
  "op_in env qg left ldt Op_in (Arr []) rdt options' =
     obind (this_escape qg left (options'\<lparr>type := coalesce ldt rdt\<rparr>))
       (\<lambda>leftSql. Returns (leftSql @ '' IN (NULL)''))"
  by (simp add: op_in_def operatorText_def)

lemma op_notIn_empty:
  "op_notIn env qg left ldt Op_notIn (Arr []) rdt options' = Returns []"
  by (simp add: op_notIn_def op_in_def)

lemma op_in_not_array:
  "\<not> is_Arr right \<Longrightarrow> \<not> is_Literal right \<Longrightarrow>
     op_in env qg left ldt operator right rdt options' =
       Throws (TypeError
         ''Operators Op.in and Op.notIn must be called with an array of values, or a literal''
         None)"
  by (cases right) (simp_all add: op_in_def)

lemma op_notIn_not_array:
  "\<not> is_Arr right \<Longrightarrow> \<not> is_Literal right \<Longrightarrow>
     op_notIn env qg left ldt operator right rdt options' =
       Throws (TypeError
         ''Operators Op.in and Op.notIn must be called with an array of values, or a literal''
         None)"
  by (simp add: op_notIn_def op_in_not_array)

lemma handlePart_in_empty_attribute:
  assumes "parseAttributeSyntax env a = Inr (Attribute a)"
  shows "formatPojoWhere_handlePart env (queryGenerator env (Suc (Suc fuel))) options'
           (Method (Attribute a)) (Some Op_in) (Arr []) ldt =
         Returns (quoteIdentifier env (columnOf options' a) @ '' IN (NULL)'', ldt)"
    and "formatPojoWhere_handlePart env qg options'
           (Method (Attribute a)) (Some Op_notIn) (Arr []) ldt = Returns ([], ldt)"
  by (simp_all add: formatPojoWhere_handlePart_def inferOperator_def nullOperator_def
        op_in_empty op_notIn_empty escape_attribute [OF assms]
      del: queryGenerator.simps)

text \<open>
  Claim C2. For every left operand, \<^verbatim>\<open>IN\<close> with an empty array is the escaped left operand
  followed by \<^verbatim>\<open>IN (NULL)\<close>, and \<^verbatim>\<open>NOT IN\<close> with an empty array is the empty string, whatever
  the left operand. A right operand that is neither an array nor a literal throws. So
  \<^verbatim>\<open>{a: {[Op.in]: []}}\<close> compiles to the quoted column followed by \<^verbatim>\<open>IN (NULL)\<close> and
  \<^verbatim>\<open>{a: {[Op.notIn]: []}}\<close> to the empty string.
\<close>

theorem in_empty_array:
  "op_in env qg left ldt Op_in (Arr []) rdt options' =
     obind (this_escape qg left (options'\<lparr>type := coalesce ldt rdt\<rparr>))
       (\<lambda>leftSql. Returns (leftSql @ '' IN (NULL)''))
   \<and> op_notIn env qg left ldt Op_notIn (Arr []) rdt options' = Returns []
   \<and> (\<not> is_Arr right \<and> \<not> is_Literal right \<longrightarrow>
        op_in env qg left ldt Op_in right rdt options' =
          Throws (TypeError
            ''Operators Op.in and Op.notIn must be called with an array of values, or a literal''
            None)
        \<and> op_notIn env qg left ldt Op_notIn right rdt options' =
          Throws (TypeError
            ''Operators Op.in and Op.notIn must be called with an array of values, or a literal''
            None))
   \<and> handler_of Op_in = Some op_in \<and> handler_of Op_notIn = Some op_notIn
   \<and> (parseAttributeSyntax env a = Inr (Attribute a) \<longrightarrow>
        whereItemsQuery env (Suc (Suc fuel)) (Obj [(KStr a, Obj [(KOp Op_in, Arr [])])]) options' =
          Returns (quoteIdentifier env (columnOf options' a) @ '' IN (NULL)'')
        \<and> whereItemsQuery env fuel (Obj [(KStr a, Obj [(KOp Op_notIn, Arr [])])]) options' =
          Returns [])"
  by (simp add: op_in_empty op_notIn_empty op_in_not_array op_notIn_not_array
        first_level_attribute formatPojoWhere_attribute nested_operator_key
        handlePart_in_empty_attribute
      del: queryGenerator.simps)

text \<open>The attribute \<^verbatim>\<open>a\<close> in the sample dialect, and a number as the right operand.\<close>

theorem in_empty_array_witness:
  "op_in sampleEnv (queryGenerator sampleEnv (Suc (Suc 0))) (Method (Attribute ''a'')) None Op_in
       (Arr []) None EMPTY_OBJECT = Returns ''[a] IN (NULL)''
   \<and> \<not> is_Arr (Num 5) \<and> \<not> is_Literal (Num 5)
   \<and> op_in sampleEnv (queryGenerator sampleEnv (Suc (Suc 0))) (Method (Attribute ''a'')) None Op_in
       (Num 5) None EMPTY_OBJECT =
       Throws (TypeError
         ''Operators Op.in and Op.notIn must be called with an array of values, or a literal''
         None)
   \<and> parseAttributeSyntax sampleEnv ''a'' = Inr (Attribute ''a'')
   \<and> whereItemsQuery sampleEnv (Suc (Suc 0)) (Obj [(KStr ''a'', Obj [(KOp Op_in, Arr [])])])
        EMPTY_OBJECT = Returns ''[a] IN (NULL)''
   \<and> whereItemsQuery sampleEnv (Suc (Suc 0)) (Obj [(KStr ''a'', Obj [(KOp Op_notIn, Arr [])])])
        EMPTY_OBJECT = Returns []"
  using in_empty_array [of sampleEnv "queryGenerator sampleEnv (Suc (Suc 0))"
          "Method (Attribute ''a'')" None None EMPTY_OBJECT "Num 5" "''a''" 0]
        in_empty_array [of sampleEnv "queryGenerator sampleEnv (Suc (Suc 0))"
          "Method (Attribute ''a'')" None None EMPTY_OBJECT "Num 5" "''a''" "Suc (Suc 0)"]
  by (simp add: columnOf_def escape_attribute del: queryGenerator.simps)

subsection \<open>JSON path accumulation\<close>

text \<open>
  Claim C5. Wrapping a JSON path operand with a further path gives one JSON path operand
  on the same base whose path is the concatenation, and wrapping twice is wrapping once with
  the concatenated path. So a hash \<^verbatim>\<open>{x: {y: w}}\<close> under an operand that allows JSON paths is
  one leaf comparison of the single path \<^verbatim>\<open>x, y\<close> with \<open>w\<close>.
\<close>

theorem wrapJsonPath_extends:
  "wrapJsonPath (Method (JsonPath v path)) jsonPath = Method (JsonPath v (path @ jsonPath))
   \<and> wrapJsonPath (wrapJsonPath operand p) q = wrapJsonPath operand (p @ q)
   \<and> (\<not> is_Obj w \<longrightarrow>
        handleRecursiveNotOrAndNestedPathRecursive left (Obj [(KStr x, Obj [(KStr y, w)])]) True
          handlePart operator [] s =
        handlePart (wrapJsonPath left [x, y]) None w s)"
  by (simp add: wrapJsonPath_JsonPath wrapJsonPath_append nested_string_key nested_leaf)

text \<open>
  The three parts at concrete operands, in the sample dialect: \<^verbatim>\<open>{x: {y: 1}}\<close> under the JSON
  attribute \<^verbatim>\<open>data\<close> is one extraction of the path \<^verbatim>\<open>x, y\<close>, compared with 1, and so is the
  whole filter \<^verbatim>\<open>{data: {x: {y: 1}}}\<close>.
\<close>

theorem wrapJsonPath_extends_witness:
  "wrapJsonPath (Method (JsonPath (Method (Attribute ''data'')) [''x''])) [''y''] =
     Method (JsonPath (Method (Attribute ''data'')) [''x'', ''y''])
   \<and> wrapJsonPath (wrapJsonPath (Method (Attribute ''data'')) [''x'']) [''y''] =
     Method (JsonPath (Method (Attribute ''data'')) [''x'', ''y''])
   \<and> \<not> is_Obj (Num 1)
   \<and> handleRecursiveNotOrAndNestedPathRecursive (Method (Attribute ''data''))
         (Obj [(KStr ''x'', Obj [(KStr ''y'', Num 1)])]) True
         (formatPojoWhere_handlePart sampleEnv (queryGenerator sampleEnv (Suc (Suc (Suc (Suc 0)))))
            (EMPTY_OBJECT\<lparr>model := Some sampleModel\<rparr>))
         Op_and [] (Some JSON) =
       Returns (''[data]->x->y = 1'', Some JSON)
   \<and> whereItemsQuery sampleEnv (Suc (Suc (Suc (Suc 0))))
         (Obj [(KStr ''data'', Obj [(KStr ''x'', Obj [(KStr ''y'', Num 1)])])])
         (EMPTY_OBJECT\<lparr>model := Some sampleModel\<rparr>) =
       Returns ''[data]->x->y = 1''"
  using wrapJsonPath_extends [of "Method (Attribute ''data'')" "[''x'']" "[''y'']"
          "Method (Attribute ''data'')" "[''x'']" "[''y'']" "Num 1" "Method (Attribute ''data'')"
          "''x''" "''y''"
          "formatPojoWhere_handlePart sampleEnv (queryGenerator sampleEnv (Suc (Suc (Suc (Suc 0)))))
             (EMPTY_OBJECT\<lparr>model := Some sampleModel\<rparr>)"
          Op_and "Some JSON"]
  by (simp add: first_level_attribute formatPojoWhere_attribute nested_string_key nested_leaf
        formatPojoWhere_handlePart_def inferOperator_def nullOperator_def
        formatBinaryOperation_def formatOpAnyAll_def jsonType_def
        escape_def formatSequelizeMethod_def formatAttribute_def formatJsonPath_def
        jsonPathExtractionQuery2_def validate_def wrapAmbiguousWhere_def operatorText_def)

subsection \<open>Literals with a nested method\<close>

lemma traverse_Diverges:
  "x \<in> set xs \<Longrightarrow> f x = Diverges \<Longrightarrow> \<forall>y\<in>set xs. f y = Diverges \<or> (\<exists>r. f y = Returns r) \<Longrightarrow>
     traverse f xs = Diverges"
proof (induction xs)
  case Nil
  then show ?case by simp
next
  case (Cons y ys)
  show ?case
  proof (cases "f y")
    case Diverges
    then show ?thesis by simp
  next
    case (Throws e)
    with Cons.prems(3) show ?thesis by simp
  next
    case (Returns r)
    with Cons.prems have "x \<in> set ys" by auto
    with Cons have "traverse f ys = Diverges" by simp
    with Returns show ?thesis by simp
  qed
qed

lemma literal_never_returns:
  "PMethod m \<in> set val \<Longrightarrow>
     this_formatSequelizeMethod (queryGenerator env fuel) (Literal val) options' = Diverges"
proof (induction fuel)
  case 0
  then show ?case by simp
next
  case (Suc fuel)
  let ?f = "\<lambda>part. case part of
              PMethod m \<Rightarrow> this_formatSequelizeMethod (queryGenerator env fuel) (Literal val) options'
            | PStr s \<Rightarrow> Returns s"
  have "traverse ?f val = Diverges"
  proof (rule traverse_Diverges [of "PMethod m"])
    show "PMethod m \<in> set val" by (rule Suc.prems)
    show "?f (PMethod m) = Diverges" using Suc by simp
    show "\<forall>y\<in>set val. ?f y = Diverges \<or> (\<exists>r. ?f y = Returns r)"
      using Suc by (auto split: lpart.splits)
  qed
  then show ?case
    by (simp add: formatSequelizeMethod_def formatLiteral_def)
qed

lemma escape_literal_never_returns:
  "PMethod m \<in> set val \<Longrightarrow>
     this_escape (queryGenerator env fuel) (Method (Literal val)) options' = Diverges"
  by (cases fuel) (simp_all add: escape_def literal_never_returns del: queryGenerator.simps(2),
      simp add: escape_def literal_never_returns)

lemma escape_attribute_any_fuel:
  "parseAttributeSyntax env a = Inr (Attribute a) \<Longrightarrow>
     this_escape (queryGenerator env fuel) (Method (Attribute a)) options' = Diverges
     \<or> (\<exists>r. this_escape (queryGenerator env fuel) (Method (Attribute a)) options' = Returns r)"
proof (cases fuel)
  case 0
  then show ?thesis by simp
next
  case (Suc n)
  assume p: "parseAttributeSyntax env a = Inr (Attribute a)"
  show ?thesis
  proof (cases n)
    case 0
    with Suc show ?thesis by (simp add: escape_def)
  next
    case (Suc k)
    with \<open>fuel = Suc n\<close> show ?thesis
      using escape_attribute [OF p, of k options'] by simp
  qed
qed

lemma formatSubstring_never_returns:
  assumes "parseAttributeSyntax env a = Inr (Attribute a)"
    and "\<not> is_Str v"
    and "operator = Op_like \<or> operator = Op_notLike"
  shows "formatSubstring env (queryGenerator env fuel) (Method (Attribute a)) ldt operator v
           rdt options' start end' = Diverges"
proof -
  let ?lit = "[PStr ''CONCAT(''] @ (if start then [PStr (escapeString env ''%''), PStr '', ''] else [])
              @ [PMethod (Value v)]
              @ (if end' then [PStr '', '', PStr (escapeString env ''%'')] else []) @ [PStr '')'']"
  have mem: "PMethod (Value v) \<in> set ?lit" by simp
  have right: "this_escape (queryGenerator env fuel) (Method (Literal ?lit)) o' = Diverges" for o'
    by (rule escape_literal_never_returns [OF mem])
  have unfold: "formatSubstring env (queryGenerator env fuel) (Method (Attribute a)) ldt operator v
           rdt options' start end' =
         formatBinaryOperation (queryGenerator env fuel) (Method (Attribute a)) ldt operator
           (Method (Literal ?lit)) rdt options'"
    using assms(2) by (cases v) (simp_all add: formatSubstring_def Let_def)
  have op: "operatorMap operator \<noteq> None"
    using assms(3) by auto
  consider "this_escape (queryGenerator env fuel) (Method (Attribute a)) (options'\<lparr>type := coalesce ldt rdt\<rparr>) = Diverges"
    | r where "this_escape (queryGenerator env fuel) (Method (Attribute a)) (options'\<lparr>type := coalesce ldt rdt\<rparr>) = Returns r"
    using escape_attribute_any_fuel [OF assms(1)] by blast
  then have "formatBinaryOperation (queryGenerator env fuel) (Method (Attribute a)) ldt operator
           (Method (Literal ?lit)) rdt options' = Diverges"
  proof cases
    case 1
    then show ?thesis
      using op by (auto simp add: formatBinaryOperation_def)
  next
    case 2
    then show ?thesis
      using op right by (auto simp add: formatBinaryOperation_def formatOpAnyAll_def)
  qed
  with unfold show ?thesis by simp
qed

lemma handlePart_substring_never_returns:
  assumes "parseAttributeSyntax env a = Inr (Attribute a)"
    and "k \<in> {Op_startsWith, Op_notStartsWith, Op_endsWith, Op_notEndsWith, Op_substring, Op_notSubstring}"
    and "\<not> is_Str v" and "\<not> is_Attribute v"
  shows "formatPojoWhere_handlePart env (queryGenerator env fuel) options' (Method (Attribute a))
           (Some k) v ldt = Diverges"
proof -
  have right: "(case v of Method (Attribute b) \<Rightarrow>
                   obind (lift (parseAttributeSyntax env b)) (\<lambda>parsed. Returns (Method parsed))
               | _ \<Rightarrow> Returns v) = Returns v"
    using assms(4) by (cases v rule: is_Attribute.cases) simp_all
  have handler: "(case handler_of k of
                    Some h \<Rightarrow> h env (queryGenerator env fuel) (Method (Attribute a)) ldt k v rdt options'
                  | None \<Rightarrow> formatBinaryOperation (queryGenerator env fuel) (Method (Attribute a)) ldt k v
                              rdt options') = Diverges" for rdt
    using assms(2) formatSubstring_never_returns [OF assms(1,3)]
    by (auto simp add: op_startsWith_def op_notStartsWith_def op_endsWith_def op_notEndsWith_def
          op_substring_def op_notSubstring_def)
  have operator: "nullOperator (inferOperator ldt (Some k) v) v = k"
    using assms(2) by (auto simp add: inferOperator_def nullOperator_def)
  have plain: "k \<noteq> Op_col" "k \<noteq> Op_any" "k \<noteq> Op_all"
    using assms(2) by auto
  show ?thesis
    unfolding formatPojoWhere_handlePart_def
    by (simp add: plain operator right handler Let_def del: queryGenerator.simps
          cong: option.case_cong)
qed

text \<open>
  Claim C1 at the filters \<^verbatim>\<open>{a: {[Op.startsWith]: v}}\<close> (and the five sibling operators)
  where \<open>v\<close> is not a string: \<^verbatim>\<open>formatSubstring\<close> builds a literal with the part
  \<^verbatim>\<open>Value(v)\<close>, and \<^verbatim>\<open>formatLiteral\<close> answers that part by formatting the literal again. For an
  attribute name without special syntax the compilation has no outcome but \<open>Diverges\<close>,
  whatever the fuel: it neither returns a string nor throws an error of the compiler.
\<close>

theorem substring_of_non_string_never_returns:
  "parseAttributeSyntax env a = Inr (Attribute a) \<Longrightarrow>
   k \<in> {Op_startsWith, Op_notStartsWith, Op_endsWith, Op_notEndsWith, Op_substring, Op_notSubstring} \<Longrightarrow>
   \<not> is_Str v \<Longrightarrow> \<not> is_Attribute v \<Longrightarrow>
     whereItemsQuery env fuel (Obj [(KStr a, Obj [(KOp k, v)])]) options' = Diverges"
proof -
  assume a: "parseAttributeSyntax env a = Inr (Attribute a)"
    and k: "k \<in> {Op_startsWith, Op_notStartsWith, Op_endsWith, Op_notEndsWith, Op_substring, Op_notSubstring}"
    and v: "\<not> is_Str v" "\<not> is_Attribute v"
  have "k \<noteq> Op_not" "k \<noteq> Op_and" "k \<noteq> Op_or"
    using k by auto
  then show ?thesis
    by (simp add: first_level_attribute formatPojoWhere_attribute [OF a] nested_operator_key
          handlePart_substring_never_returns [OF a k v] del: queryGenerator.simps)
qed

text \<open>The filter \<^verbatim>\<open>{a: {[Op.startsWith]: 5}}\<close> in the sample dialect.\<close>

theorem substring_of_non_string_never_returns_witness:
  "parseAttributeSyntax sampleEnv ''a'' = Inr (Attribute ''a'')
   \<and> Op_startsWith \<in> {Op_startsWith, Op_notStartsWith, Op_endsWith, Op_notEndsWith, Op_substring, Op_notSubstring}
   \<and> \<not> is_Str (Num 5) \<and> \<not> is_Attribute (Num 5)
   \<and> (\<forall>fuel. whereItemsQuery sampleEnv fuel (Obj [(KStr ''a'', Obj [(KOp Op_startsWith, Num 5)])])
          EMPTY_OBJECT = Diverges)"
  using substring_of_non_string_never_returns [of sampleEnv "''a''" Op_startsWith "Num 5" _ EMPTY_OBJECT]
  by simp

end
